theory Spec2Isabelle
  imports Complex_Main
begin

section \<open>Shared modelling conventions\<close>

text \<open>
  The repository is Python. Strings are \<open>string\<close>; an instance of a subclass of
  \<open>Exception\<close> is represented by its message \<open>str(e)\<close>, and a computation that
  may raise returns \<open>exception + 'a\<close> with \<open>Inl\<close> for the raise. Calls to AWS, to
  the shell and to the clock are parameters of the model: the value the call returns
  (or the exception it raises) is supplied by the environment. A loop that observes an
  external resource reads the answers of successive calls from a function on the call
  number. What a function prints, sleeps and calls is collected in a list of actions.
\<close>

type_synonym exception = string

text \<open>\<open>try: body except Exception as e: handler\<close>\<close>

definition try_except ::
  "(exception + 'a) \<Rightarrow> (exception \<Rightarrow> exception + 'a) \<Rightarrow> exception + 'a" where
  "try_except body handler = (case body of Inl e \<Rightarrow> handler e | Inr v \<Rightarrow> Inr v)"

datatype event = Call string | Sleep nat | Print string | Log string

text \<open>The calls and sleeps of a run, without what it prints.\<close>

fun is_Print :: "event \<Rightarrow> bool" where
  "is_Print (Print s) = True"
| "is_Print _ = False"

definition effects :: "event list \<Rightarrow> event list" where
  "effects tr = filter (\<lambda>e. \<not> is_Print e) tr"

text \<open>Decimal digits of a natural number, for the f-strings that print counters.\<close>

function str_nat :: "nat \<Rightarrow> string" where
  "str_nat n = (if n < 10 then [char_of (48 + n)]
                else str_nat (n div 10) @ [char_of (48 + n mod 10)])"
  by pat_completeness auto
termination
  by (relation "measure id") auto

subsection \<open>Python values\<close>

text \<open>
  The values that JSON documents and request payloads are made of. A float is the real
  number it denotes; \<open>PNonFinite\<close> stands for \<open>inf\<close>, \<open>-inf\<close> and \<open>nan\<close>. A
  dictionary with string keys is an association list read with \<open>map_of\<close>.
  \<open>truthy\<close> is Python's truth value (\<open>bool(v)\<close>).
\<close>

datatype pyval =
    PNone | PBool bool | PInt int | PFloat real | PNonFinite
  | PStr string | PList "pyval list" | PDict "(string \<times> pyval) list"

fun truthy :: "pyval \<Rightarrow> bool" where
  "truthy PNone = False"
| "truthy (PBool b) = b"
| "truthy (PInt i) = (i \<noteq> 0)"
| "truthy (PFloat x) = (x \<noteq> 0)"
| "truthy PNonFinite = True"
| "truthy (PStr s) = (s \<noteq> [])"
| "truthy (PList xs) = (xs \<noteq> [])"
| "truthy (PDict kvs) = (kvs \<noteq> [])"

fun is_dict :: "pyval \<Rightarrow> bool" where
  "is_dict (PDict kvs) = True"
| "is_dict _ = False"

text \<open>\<open>os.getenv\<close> gives \<open>None\<close> or a string; \<open>not v\<close> holds for \<open>None\<close> and for
  the empty string.\<close>

definition env_set :: "string option \<Rightarrow> bool" where
  "env_set v = (case v of None \<Rightarrow> False | Some s \<Rightarrow> s \<noteq> [])"

text \<open>The name of a value's type, and a text between single quotes, as they stand in
  the messages of the interpreter's exceptions (those of Python 3.11).\<close>

fun py_type_name :: "pyval \<Rightarrow> string" where
  "py_type_name PNone = ''NoneType''"
| "py_type_name (PBool b) = ''bool''"
| "py_type_name (PInt i) = ''int''"
| "py_type_name (PFloat x) = ''float''"
| "py_type_name PNonFinite = ''float''"
| "py_type_name (PStr s) = ''str''"
| "py_type_name (PList xs) = ''list''"
| "py_type_name (PDict kvs) = ''dict''"

definition quoted :: "string \<Rightarrow> string" where
  "quoted s = CHR 0x27 # s @ [CHR 0x27]"

text \<open>\<open>value[key]\<close> with a string key: \<open>KeyError\<close> (whose message is the quoted
  key) on a dictionary without the key, \<open>TypeError\<close> on a value that is no
  dictionary.\<close>

fun py_getitem :: "pyval \<Rightarrow> string \<Rightarrow> exception + pyval" where
  "py_getitem (PDict kvs) k =
     (case map_of kvs k of None \<Rightarrow> Inl (quoted k) | Some v \<Rightarrow> Inr v)"
| "py_getitem (PStr s) k = Inl (''string indices must be integers, not '' @ quoted ''str'')"
| "py_getitem (PList xs) k = Inl ''list indices must be integers or slices, not str''"
| "py_getitem v k = Inl (quoted (py_type_name v) @ '' object is not subscriptable'')"

text \<open>\<open>sep.join(values)\<close>: every value has to be a string; \<open>i\<close> is the index of the
  first value.\<close>

fun join_strings :: "nat \<Rightarrow> pyval list \<Rightarrow> exception + string list" where
  "join_strings i [] = Inr []"
| "join_strings i (PStr s # rest) =
     (case join_strings (Suc i) rest of Inl e \<Rightarrow> Inl e | Inr ts \<Rightarrow> Inr (s # ts))"
| "join_strings i (v # rest) =
     Inl (''sequence item '' @ str_nat i @ '': expected str instance, '' @ py_type_name v
          @ '' found'')"

subsection \<open>Python string operations\<close>

text \<open>\<open>s.lower()\<close> on the ASCII letters.\<close>

definition lower_char :: "char \<Rightarrow> char" where
  "lower_char c = (if (65::nat) \<le> of_char c \<and> of_char c \<le> (90::nat)
                   then char_of (of_char c + (32::nat)) else c)"

definition str_lower :: "string \<Rightarrow> string" where
  "str_lower s = map lower_char s"

text \<open>\<open>sub in s\<close>, \<open>s.startswith(p)\<close>, \<open>s.endswith(p)\<close>, \<open>sep.join(xs)\<close>,
  \<open>s.split(c)\<close> for a one-character separator, and \<open>s.strip()\<close>, whose whitespace
  is the characters 9 to 13, 28 to 32, 133 and 160.\<close>

definition starts_with :: "string \<Rightarrow> string \<Rightarrow> bool" where
  "starts_with s p = (take (length p) s = p)"

definition ends_with :: "string \<Rightarrow> string \<Rightarrow> bool" where
  "ends_with s p = (length p \<le> length s \<and> drop (length s - length p) s = p)"

fun contains :: "string \<Rightarrow> string \<Rightarrow> bool" where
  "contains [] sub = (sub = [])"
| "contains (c # s) sub = (starts_with (c # s) sub \<or> contains s sub)"

fun str_join :: "string \<Rightarrow> string list \<Rightarrow> string" where
  "str_join sep [] = []"
| "str_join sep [x] = x"
| "str_join sep (x # y # ys) = x @ sep @ str_join sep (y # ys)"

fun split_char :: "char \<Rightarrow> string \<Rightarrow> string list" where
  "split_char sep [] = [[]]"
| "split_char sep (c # s) =
     (if c = sep then [] # split_char sep s
      else (case split_char sep s of
              [] \<Rightarrow> [[c]]
            | w # ws \<Rightarrow> (c # w) # ws))"

definition is_space :: "char \<Rightarrow> bool" where
  "is_space c = (let n = (of_char c :: nat)
                 in (9 \<le> n \<and> n \<le> 13) \<or> (28 \<le> n \<and> n \<le> 32) \<or> n = 133 \<or> n = 160)"

definition str_strip :: "string \<Rightarrow> string" where
  "str_strip s = rev (dropWhile is_space (rev (dropWhile is_space s)))"

subsection \<open>Cognito authorizer configuration (deploy script and create\_gateway.py)\<close>

text \<open>The dictionaries handed to the runtime and to the AWS CLI, as JSON values.\<close>

datatype json = JStr string | JArr "json list" | JObj "(string \<times> json) list"

fun json_get :: "json \<Rightarrow> string \<Rightarrow> json option" where
  "json_get (JObj kvs) k = map_of kvs k"
| "json_get _ k = None"

text \<open>deploy script, \<open>main\<close>, step 7: the f-string and the
  \<open>authorizer_configuration\<close> argument of \<open>agentcore_runtime.configure\<close>.\<close>

definition deploy_discovery_url :: "string \<Rightarrow> string \<Rightarrow> string" where
  "deploy_discovery_url region cognito_user_pool_id =
     ''https://cognito-idp.'' @ region @ ''.amazonaws.com/'' @ cognito_user_pool_id
       @ ''/.well-known/openid-configuration''"

definition deploy_authorizer_configuration :: "string \<Rightarrow> string \<Rightarrow> string \<Rightarrow> json" where
  "deploy_authorizer_configuration region cognito_user_pool_id cognito_client_id =
     JObj [(''customJWTAuthorizer'',
            JObj [(''discoveryUrl'', JStr (deploy_discovery_url region cognito_user_pool_id)),
                  (''allowedClients'', JArr [JStr cognito_client_id])])]"

text \<open>create\_gateway.py, \<open>create_gateway\<close>: \<open>discovery_url\<close> and
  \<open>authorizer_config\<close>.\<close>

definition gateway_discovery_url :: "string \<Rightarrow> string \<Rightarrow> string" where
  "gateway_discovery_url aws_region cognito_user_pool_id =
     ''https://cognito-idp.'' @ aws_region @ ''.amazonaws.com/'' @ cognito_user_pool_id
       @ ''/.well-known/openid-configuration''"

definition gateway_authorizer_config :: "string \<Rightarrow> string \<Rightarrow> string \<Rightarrow> json" where
  "gateway_authorizer_config aws_region cognito_user_pool_id cognito_client_id =
     JObj [(''customJWTAuthorizer'',
            JObj [(''allowedClients'', JArr [JStr cognito_client_id]),
                  (''discoveryUrl'', JStr (gateway_discovery_url aws_region cognito_user_pool_id))])]"

text \<open>The URL as the specification words it:
  \<open>https://cognito-idp.<region>.amazonaws.com/<user-pool-id>/.well-known/openid-configuration\<close>.\<close>

definition spec_openid_configuration_url :: "string \<Rightarrow> string \<Rightarrow> string" where
  "spec_openid_configuration_url region pool =
     concat [''https://cognito-idp.'', region, ''.amazonaws.com/'', pool,
             ''/.well-known/openid-configuration'']"

text \<open>The two fields of the \<open>customJWTAuthorizer\<close> entry of a configuration.\<close>

definition authorizer_field :: "json \<Rightarrow> string \<Rightarrow> json option" where
  "authorizer_field cfg k =
     (case json_get cfg ''customJWTAuthorizer'' of None \<Rightarrow> None | Some a \<Rightarrow> json_get a k)"

subsection \<open>Athena polling (spa\_multi\_agent\_system\_v8.py)\<close>

text \<open>
  \<open>athena.get_query_execution\<close> answers differently as the query advances: the
  environment gives the answer of the call with a given number (from 0).
  \<open>check_query_status\<close> reads the state of an answer; \<open>get_query_results\<close> is the
  polling loop with \<open>max_wait = 30\<close>, followed by the branch on the last status read.
  The variable \<open>status\<close> is unbound before the first poll.
\<close>

record query_execution_status =
  State :: string
  StateChangeReason :: "string option"

record 'r athena =
  get_query_execution :: "nat \<Rightarrow> exception + query_execution_status"
  get_query_results_api :: "exception + 'r"

definition check_query_status :: "'r athena \<Rightarrow> nat \<Rightarrow> exception + string" where
  "check_query_status env n =
     (case get_query_execution env n of Inl e \<Rightarrow> Inl e | Inr response \<Rightarrow> Inr (State response))"

datatype 'r query_outcome = QueryResults 'r | ErrorDict string

function query_wait_loop ::
  "'r athena \<Rightarrow> nat \<Rightarrow> nat \<Rightarrow> nat \<Rightarrow> string option \<Rightarrow> event list
     \<Rightarrow> event list \<times> nat \<times> (exception + string option)" where
  "query_wait_loop env max_wait wait_count calls status tr =
     (if wait_count < max_wait then
        (case check_query_status env calls of
           Inl e \<Rightarrow> (tr @ [Call ''athena.get_query_execution''], Suc calls, Inl e)
         | Inr s \<Rightarrow>
             if s \<in> set [''SUCCEEDED'', ''FAILED'', ''CANCELLED'']
             then (tr @ [Call ''athena.get_query_execution''], Suc calls, Inr (Some s))
             else query_wait_loop env max_wait (wait_count + 1) (Suc calls) (Some s)
                    (tr @ [Call ''athena.get_query_execution'', Sleep 1]))
      else (tr, calls, Inr status))"
  by pat_completeness auto
termination
  by (relation "measure (\<lambda>(env, max_wait, wait_count, calls, status, tr). max_wait - wait_count)") auto

definition get_query_results :: "'r athena \<Rightarrow> event list \<times> (exception + 'r query_outcome)" where
  "get_query_results env =
     (case query_wait_loop env 30 0 0 None [] of
        (tr, calls, Inl e) \<Rightarrow> (tr, Inl e)
      | (tr, calls, Inr None) \<Rightarrow> (tr, Inl ''UnboundLocalError'')
      | (tr, calls, Inr (Some status)) \<Rightarrow>
          if status = ''SUCCEEDED''
          then (tr @ [Call ''athena.get_query_results''],
                case get_query_results_api env of Inl e \<Rightarrow> Inl e | Inr r \<Rightarrow> Inr (QueryResults r))
          else (tr @ [Call ''athena.get_query_execution''],
                case get_query_execution env calls of
                  Inl e \<Rightarrow> Inl e
                | Inr error_details \<Rightarrow>
                    Inr (ErrorDict (''Query failed: '' @
                      (case StateChangeReason error_details of
                         None \<Rightarrow> ''Unknown error'' | Some state_change_reason \<Rightarrow> state_change_reason)))))"



subsection \<open>Deployment monitor (deploy script, \<open>main\<close>, step 8)\<close>

text \<open>
  \<open>agentcore_runtime.status()\<close> raises, or returns a response whose endpoint may or
  may not carry a \<open>status\<close> entry (\<open>.get('status', 'UNKNOWN')\<close>). The loop leaves by
  \<open>break\<close> on READY, by \<open>return\<close> on a failed status, or when \<open>attempt\<close> reaches
  \<open>max_attempts\<close>; the test \<open>status != 'READY'\<close> follows the loop.
\<close>

datatype loop_exit = Break | Return | Exhausted

function monitor_loop ::
  "(nat \<Rightarrow> exception + string option) \<Rightarrow> nat \<Rightarrow> nat \<Rightarrow> nat \<Rightarrow> string \<Rightarrow> event list
     \<Rightarrow> event list \<times> loop_exit \<times> string" where
  "monitor_loop runtime_status max_attempts attempt calls status tr =
     (if attempt < max_attempts then
        (case runtime_status calls of
           Inl e \<Rightarrow>
             monitor_loop runtime_status max_attempts (attempt + 1) (Suc calls) status
               (tr @ [Call ''agentcore_runtime.status'', Print (''Status check error: '' @ e)]
                   @ (if attempt + 1 < max_attempts then [Sleep 30] else []))
         | Inr status_response \<Rightarrow>
             (let status' = (case status_response of None \<Rightarrow> ''UNKNOWN'' | Some s \<Rightarrow> s);
                  tr' = tr @ [Call ''agentcore_runtime.status'',
                              Print (''Attempt '' @ str_nat (attempt + 1) @ ''/''
                                     @ str_nat max_attempts @ '' - Status: '' @ status')]
              in if status' = ''READY''
                 then (tr' @ [Print ''[SUCCESS] Deployment successful!''], Break, status')
                 else if status' \<in> set [''CREATE_FAILED'', ''DELETE_FAILED'', ''UPDATE_FAILED'', ''FAILED'']
                 then (tr' @ [Print (''[ERROR] Deployment failed: '' @ status'),
                              Call ''cleanup_temp_files''], Return, status')
                 else monitor_loop runtime_status max_attempts (attempt + 1) (Suc calls) status'
                        (tr' @ (if attempt + 1 < max_attempts then [Sleep 30] else []))))
      else (tr, Exhausted, status))"
  by pat_completeness auto
termination
  by (relation "measure (\<lambda>(runtime_status, max_attempts, attempt, calls, status, tr).
                           max_attempts - attempt)") auto

datatype deployment = DeploymentReady | DeploymentFailed | DeploymentTimedOut

definition monitor_deployment ::
  "(nat \<Rightarrow> exception + string option) \<Rightarrow> event list \<times> deployment" where
  "monitor_deployment runtime_status =
     (case monitor_loop runtime_status 60 0 0 ''CREATING'' [] of
        (tr, Return, status) \<Rightarrow> (tr, DeploymentFailed)
      | (tr, _, status) \<Rightarrow>
          if status \<noteq> ''READY''
          then (tr @ [Print (''[ERROR] Deployment timed out: '' @ status),
                      Call ''cleanup_temp_files''], DeploymentTimedOut)
          else (tr, DeploymentReady))"

text \<open>What a poll reports: nothing when the call raised.\<close>

definition reported :: "exception + string option \<Rightarrow> string option" where
  "reported r = (case r of Inl e \<Rightarrow> None | Inr None \<Rightarrow> Some ''UNKNOWN'' | Inr (Some s) \<Rightarrow> Some s)"

definition reports_failure :: "exception + string option \<Rightarrow> bool" where
  "reports_failure r =
     (case reported r of None \<Rightarrow> False
      | Some s \<Rightarrow> s \<in> set [''CREATE_FAILED'', ''DELETE_FAILED'', ''UPDATE_FAILED'', ''FAILED''])"

definition ends_monitoring :: "exception + string option \<Rightarrow> bool" where
  "ends_monitoring r = (reported r = Some ''READY'' \<or> reports_failure r)"

subsection \<open>Gateway creation (create\_gateway.py, \<open>create_gateway\<close>)\<close>

text \<open>
  A command run through \<open>subprocess.run\<close> ends with a non-zero return code (and its
  stderr text), or with return code 0; in the second case the code reads stdout with
  \<open>json.loads\<close>, which raises or gives the value read. For \<open>create-gateway\<close> the value
  read is \<open>gateway_data['gatewayId']\<close>, for \<open>get-gateway\<close> it is
  \<open>.get('status')\<close> (\<open>None\<close> when the entry is absent); both are taken to be strings
  when present. \<open>sys.exit(1)\<close> raises \<open>SystemExit\<close>, which \<open>except Exception\<close> does
  not catch: the process ends with that code. The role is created before
  (\<open>create_gateway_role\<close>, not modelled; its exception would leave the function before
  any command runs). Printed lines are given without their leading emoji and the space
  after it.
\<close>

datatype 'a cli = NonZero string | Zero "exception + 'a"

datatype 'a ending = Exited int | Raised exception | Returned 'a

datatype permission = Added | ResourceConflict | PermissionRaised exception

record aws_cli =
  create_gateway_cmd :: "string cli"
  get_gateway_cmd :: "nat \<Rightarrow> string option cli"
  create_gateway_target_cmd :: "unit cli"
  sts_account :: "exception + string"
  add_permission :: permission

text \<open>\<open>print(f"   Gateway status: {gateway_status}")\<close> formats \<open>None\<close> as \<open>None\<close>.\<close>

definition str_optional :: "string option \<Rightarrow> string" where
  "str_optional v = (case v of None \<Rightarrow> ''None'' | Some s \<Rightarrow> s)"

text \<open>The loop \<open>while wait_count < max_wait\<close>; it returns the final \<open>wait_count\<close>,
  or the exception that \<open>json.loads\<close> or \<open>.get\<close> raised.\<close>

function gateway_wait_loop ::
  "(nat \<Rightarrow> string option cli) \<Rightarrow> nat \<Rightarrow> nat \<Rightarrow> nat \<Rightarrow> event list
     \<Rightarrow> event list \<times> (exception + nat)" where
  "gateway_wait_loop get_gateway max_wait wait_count calls tr =
     (if wait_count < max_wait then
        (case get_gateway calls of
           NonZero err \<Rightarrow>
             gateway_wait_loop get_gateway max_wait (wait_count + 5) (Suc calls)
               (tr @ [Call ''get-gateway'', Sleep 5])
         | Zero (Inl e) \<Rightarrow> (tr @ [Call ''get-gateway''], Inl e)
         | Zero (Inr gateway_status) \<Rightarrow>
             if gateway_status = Some ''READY''
             then (tr @ [Call ''get-gateway'', Print ''Gateway is ready''], Inr wait_count)
             else gateway_wait_loop get_gateway max_wait (wait_count + 5) (Suc calls)
                    (tr @ [Call ''get-gateway'',
                           Print (''   Gateway status: '' @ str_optional gateway_status),
                           Sleep 5]))
      else (tr, Inr wait_count))"
  by pat_completeness auto
termination
  by (relation "measure (\<lambda>(get_gateway, max_wait, wait_count, calls, tr). max_wait - wait_count)")
     auto

text \<open>The first \<open>try\<close> block: the create command, then the wait. It ends the process
  with code 1, or goes on with the gateway id.\<close>

definition create_and_wait :: "aws_cli \<Rightarrow> string \<Rightarrow> event list \<times> (int + string)" where
  "create_and_wait env aws_region =
     (case create_gateway_cmd env of
        NonZero err \<Rightarrow>
          ([Call ''create-gateway'', Print (''Error creating gateway: '' @ err)], Inl 1)
      | Zero (Inl e) \<Rightarrow>
          ([Call ''create-gateway'', Print (''Error creating gateway: '' @ e)], Inl 1)
      | Zero (Inr gateway_id) \<Rightarrow>
          (let tr0 = [Call ''create-gateway'',
                      Print (''Gateway created with CUSTOM_JWT: '' @ gateway_id),
                      Print (''Gateway URL: https://'' @ gateway_id
                             @ ''.gateway.bedrock-agentcore.'' @ aws_region @ ''.amazonaws.com''),
                      Print ''Waiting for gateway to be ready...'']
           in case gateway_wait_loop (get_gateway_cmd env) 60 0 0 tr0 of
                (tr, Inl e) \<Rightarrow> (tr @ [Print (''Error creating gateway: '' @ e)], Inl 1)
              | (tr, Inr wait_count) \<Rightarrow>
                  (tr @ (if wait_count \<ge> 60
                         then [Print ''Gateway creation timeout, but continuing...''] else []),
                   Inr gateway_id)))"

text \<open>The rest of the function: the two temporary files, the target command, the ARN,
  the Lambda permission and the saved configuration; \<open>finally\<close> removes the two files
  on every way out.\<close>

definition create_gateway_target ::
  "aws_cli \<Rightarrow> string \<Rightarrow> string \<Rightarrow> event list \<times> (string \<times> string) ending" where
  "create_gateway_target env aws_region gateway_id =
     (let tr0 = [Call ''write target_file'', Call ''write cred_file'',
                 Call ''create-gateway-target''];
          unlink = [Call ''unlink target_file'', Call ''unlink cred_file'']
      in case create_gateway_target_cmd env of
           NonZero err \<Rightarrow> (tr0 @ [Print (''Error creating target: '' @ err)] @ unlink, Exited 1)
         | Zero _ \<Rightarrow>
             (case sts_account env of
                Inl e \<Rightarrow> (tr0 @ [Call ''sts.get_caller_identity''] @ unlink, Raised e)
              | Inr account \<Rightarrow>
                  (let gateway_arn = ''arn:aws:bedrock-agentcore:'' @ aws_region @ '':'' @ account
                                      @ '':gateway/'' @ gateway_id;
                       gateway_url = ''https://'' @ gateway_id @ ''.gateway.bedrock-agentcore.''
                                      @ aws_region @ ''.amazonaws.com'';
                       tr1 = tr0 @ [Call ''sts.get_caller_identity'',
                                    Print ''Gateway target created successfully!'',
                                    Print (''Gateway ARN: '' @ gateway_arn),
                                    Print (''Gateway ID: '' @ gateway_id),
                                    Print (''Gateway URL: '' @ gateway_url),
                                    Print (''MCP URL: '' @ gateway_url @ ''/mcp''),
                                    Print ''Adding Lambda permission for Gateway...'',
                                    Call ''lambda.add_permission''];
                       saved = [Call ''write gateway_config.json'',
                                Print ''Gateway config saved to gateway_config.json'']
                   in case add_permission env of
                        PermissionRaised e \<Rightarrow> (tr1 @ unlink, Raised e)
                      | Added \<Rightarrow>
                          (tr1 @ [Print ''Lambda permission added''] @ saved @ unlink,
                           Returned (gateway_arn, gateway_id))
                      | ResourceConflict \<Rightarrow>
                          (tr1 @ [Print ''Lambda permission already exists''] @ saved @ unlink,
                           Returned (gateway_arn, gateway_id)))))"

definition create_gateway ::
  "aws_cli \<Rightarrow> string \<Rightarrow> event list \<times> (string \<times> string) ending" where
  "create_gateway env aws_region =
     (case create_and_wait env aws_region of
        (tr, Inl code) \<Rightarrow> (tr, Exited code)
      | (tr, Inr gateway_id) \<Rightarrow>
          (case create_gateway_target env aws_region gateway_id of
             (tr', out) \<Rightarrow> (tr @ tr', out)))"

text \<open>A poll observes READY; a poll is one whose output cannot be read.\<close>

definition observes_ready :: "string option cli \<Rightarrow> bool" where
  "observes_ready r = (r = Zero (Inr (Some ''READY'')))"

definition unreadable :: "string option cli \<Rightarrow> bool" where
  "unreadable r = (case r of Zero (Inl e) \<Rightarrow> True | _ \<Rightarrow> False)"

subsection \<open>Glue crawlers (run\_crawlers.py, \<open>run_glue_crawlers\<close>)\<close>

text \<open>
  \<open>glue.start_crawler\<close> succeeds, raises \<open>CrawlerRunningException\<close> or raises another
  exception; all three are handled and the loop goes to the next crawler.
  \<open>glue.get_crawler\<close> answers with the crawler's state, or raises; the environment gives
  the answer by crawler name and by the number of the call. \<open>while True\<close> may run forever:
  the wait loop is a partial function, and \<open>None\<close> is a run that never returns. Printed
  lines are given without their emoji and the space after it.
\<close>

datatype start_result = Started | CrawlerRunning | StartError exception

record glue =
  start_crawler :: "string \<Rightarrow> start_result"
  get_crawler :: "string \<Rightarrow> nat \<Rightarrow> exception + string"

fun start_crawlers :: "glue \<Rightarrow> string list \<Rightarrow> event list" where
  "start_crawlers env [] = []"
| "start_crawlers env (crawler_name # rest) =
     [Print (''Starting crawler: '' @ crawler_name), Call ''glue.start_crawler'']
     @ (case start_crawler env crawler_name of
          Started \<Rightarrow> [Print (''  Crawler '' @ crawler_name @ '' started'')]
        | CrawlerRunning \<Rightarrow> [Print (''  Crawler '' @ crawler_name @ '' already running'')]
        | StartError e \<Rightarrow> [Print (''  Error starting '' @ crawler_name @ '': '' @ e)])
     @ start_crawlers env rest"

partial_function (option) crawler_wait_loop ::
  "glue \<Rightarrow> string \<Rightarrow> nat \<Rightarrow> event list \<Rightarrow> (event list \<times> nat \<times> (exception + unit)) option" where
  "crawler_wait_loop env crawler_name calls tr =
     (case get_crawler env crawler_name calls of
        Inl e \<Rightarrow> Some (tr @ [Call ''glue.get_crawler''], Suc calls, Inl e)
      | Inr state \<Rightarrow>
          if state = ''READY''
          then Some (tr @ [Call ''glue.get_crawler'', Print (''  '' @ crawler_name @ '' completed'')],
                     Suc calls, Inr ())
          else if state \<in> set [''RUNNING'', ''STOPPING'']
          then crawler_wait_loop env crawler_name (Suc calls)
                 (tr @ [Call ''glue.get_crawler'',
                        Print (''  '' @ crawler_name @ '' is '' @ str_lower state @ ''...''),
                        Sleep 10])
          else Some (tr @ [Call ''glue.get_crawler'',
                           Print (''  '' @ crawler_name @ '' state: '' @ state)],
                     Suc calls, Inr ()))"

fun wait_for_crawlers ::
  "glue \<Rightarrow> string list \<Rightarrow> nat \<Rightarrow> event list \<Rightarrow> (event list \<times> (exception + unit)) option" where
  "wait_for_crawlers env [] calls tr = Some (tr, Inr ())"
| "wait_for_crawlers env (crawler_name # rest) calls tr =
     (case crawler_wait_loop env crawler_name calls tr of
        None \<Rightarrow> None
      | Some (tr', calls', Inl e) \<Rightarrow> Some (tr', Inl e)
      | Some (tr', calls', Inr u) \<Rightarrow> wait_for_crawlers env rest calls' tr')"

definition run_glue_crawlers ::
  "glue \<Rightarrow> string list \<Rightarrow> bool \<Rightarrow> (event list \<times> (exception + unit)) option" where
  "run_glue_crawlers env crawler_names wait_for_completion =
     (let tr = start_crawlers env crawler_names
      in if wait_for_completion
         then wait_for_crawlers env crawler_names 0
                (tr @ [Print (CHR 0x0A # ''Waiting for crawlers to complete...'')])
         else Some (tr, Inr ()))"

text \<open>The state the crawler reports at a call: nothing when the call raised.\<close>

definition reported_state :: "glue \<Rightarrow> string \<Rightarrow> nat \<Rightarrow> string option" where
  "reported_state env crawler_name n =
     (case get_crawler env crawler_name n of Inl e \<Rightarrow> None | Inr state \<Rightarrow> Some state)"

definition in_progress :: "string option \<Rightarrow> bool" where
  "in_progress s = (s = Some ''RUNNING'' \<or> s = Some ''STOPPING'')"

text \<open>The events of one pass of the loop that finds the crawler running or stopping.\<close>

definition progress_events :: "string \<Rightarrow> string option \<Rightarrow> event list" where
  "progress_events crawler_name s =
     [Call ''glue.get_crawler'',
      Print (''  '' @ crawler_name @ '' is ''
             @ (if s = Some ''RUNNING'' then ''running'' else ''stopping'') @ ''...''),
      Sleep 10]"

text \<open>The poll that ends the wait for a crawler reports a state other than RUNNING and
  STOPPING; what the loop does then: the call, and the line that the crawler completed
  (on READY) or the line with its state.\<close>

definition ends_wait :: "string option \<Rightarrow> bool" where
  "ends_wait s = (case s of None \<Rightarrow> False
                  | Some state \<Rightarrow> state \<notin> set [''RUNNING'', ''STOPPING''])"

definition final_events :: "string \<Rightarrow> string option \<Rightarrow> event list" where
  "final_events crawler_name s =
     [Call ''glue.get_crawler'',
      Print (''  '' @ crawler_name
             @ (if s = Some ''READY'' then '' completed''
                else '' state: '' @ (case s of None \<Rightarrow> [] | Some state \<Rightarrow> state)))]"

text \<open>A course of the whole wait: for each crawler of the list, in order, the number of
  polls that find it running or stopping before the poll that ends its wait. The polls of
  a crawler start at the call number where those of the crawler before ended.
  \<open>waits_end\<close> says that the environment follows the course from a call number on,
  \<open>wait_events\<close> is what is called, printed and slept on it, and \<open>calls_after\<close> is the
  call number reached at its end.\<close>

fun waits_end :: "glue \<Rightarrow> (string \<times> nat) list \<Rightarrow> nat \<Rightarrow> bool" where
  "waits_end env [] c = True"
| "waits_end env ((crawler_name, k) # rest) c =
     (list_all (\<lambda>i. in_progress (reported_state env crawler_name i)) [c..<c + k]
      \<and> ends_wait (reported_state env crawler_name (c + k))
      \<and> waits_end env rest (Suc (c + k)))"

fun wait_events :: "glue \<Rightarrow> (string \<times> nat) list \<Rightarrow> nat \<Rightarrow> event list" where
  "wait_events env [] c = []"
| "wait_events env ((crawler_name, k) # rest) c =
     concat (map (\<lambda>i. progress_events crawler_name (reported_state env crawler_name i))
               [c..<c + k])
     @ final_events crawler_name (reported_state env crawler_name (c + k))
     @ wait_events env rest (Suc (c + k))"

fun calls_after :: "(string \<times> nat) list \<Rightarrow> nat \<Rightarrow> nat" where
  "calls_after [] c = c"
| "calls_after ((crawler_name, k) # rest) c = calls_after rest (Suc (c + k))"

subsection \<open>Gateway access token cache (spa\_multi\_agent\_system\_v8.py)\<close>

text \<open>
  The globals \<open>_access_token_cache\<close> and \<open>_token_expiry\<close> are the state; both start as
  \<open>None\<close>. \<open>time.time()\<close> is read once for the cache test and once after the answer
  has arrived; a time is a real number of seconds. \<open>requests.post\<close> raises or gives a
  response; \<open>raise_for_status\<close> raises for a status code from 400 to 599;
  \<open>response.json()\<close> raises or gives the value read.
\<close>

record token_state =
  access_token_cache :: pyval
  token_expiry :: "real option"

record http_response =
  status_code :: nat
  reason :: string
  url :: string
  json_body :: "exception + pyval"

record token_env =
  GATEWAY_TOKEN_URL :: "string option"
  GATEWAY_COGNITO_CLIENT_ID :: "string option"
  GATEWAY_COGNITO_CLIENT_SECRET :: "string option"
  requests_post :: "exception + http_response"
  time_at_test :: real
  time_after_fetch :: real

definition raise_for_status :: "http_response \<Rightarrow> exception + unit" where
  "raise_for_status response =
     (if 400 \<le> status_code response \<and> status_code response < 500
      then Inl (str_nat (status_code response) @ '' Client Error: '' @ reason response
                @ '' for url: '' @ url response)
      else if 500 \<le> status_code response \<and> status_code response < 600
      then Inl (str_nat (status_code response) @ '' Server Error: '' @ reason response
                @ '' for url: '' @ url response)
      else Inr ())"

text \<open>The test that opens the function:
  \<open>_access_token_cache and _token_expiry and time.time() < _token_expiry\<close>.\<close>

definition cache_valid :: "token_env \<Rightarrow> token_state \<Rightarrow> bool" where
  "cache_valid env s =
     (truthy (access_token_cache s)
      \<and> (case token_expiry s of None \<Rightarrow> False
          | Some expiry \<Rightarrow> expiry \<noteq> 0 \<and> time_at_test env < expiry))"

definition get_gateway_access_token ::
  "token_env \<Rightarrow> token_state \<Rightarrow> event list \<times> pyval \<times> token_state" where
  "get_gateway_access_token env s =
     (if cache_valid env s then ([], access_token_cache s, s)
      else if \<not> env_set (GATEWAY_TOKEN_URL env) \<or> \<not> env_set (GATEWAY_COGNITO_CLIENT_ID env)
              \<or> \<not> env_set (GATEWAY_COGNITO_CLIENT_SECRET env)
      then ([Log ''Gateway OAuth2 credentials not configured''], PNone, s)
      else
        (case requests_post env of
           Inl e \<Rightarrow> ([Call ''requests.post'', Log (''Failed to get Gateway access token: '' @ e)],
                     PNone, s)
         | Inr response \<Rightarrow>
             (case raise_for_status response of
                Inl e \<Rightarrow> ([Call ''requests.post'',
                           Log (''Failed to get Gateway access token: '' @ e)], PNone, s)
              | Inr u \<Rightarrow>
                  (case json_body response of
                     Inl e \<Rightarrow> ([Call ''requests.post'',
                                Log (''Failed to get Gateway access token: '' @ e)], PNone, s)
                   | Inr token_data \<Rightarrow>
                       (case py_getitem token_data ''access_token'' of
                          Inl e \<Rightarrow> ([Call ''requests.post'',
                                     Log (''Failed to get Gateway access token: '' @ e)],
                                    PNone, s)
                        | Inr token \<Rightarrow>
                            ([Call ''requests.post''], token,
                             \<lparr>access_token_cache = token,
                              token_expiry = Some (time_after_fetch env + 50 * 60)\<rparr>))))))"

text \<open>The configuration is complete; the ways a fetch fails.\<close>

definition configured :: "token_env \<Rightarrow> bool" where
  "configured env = (env_set (GATEWAY_TOKEN_URL env) \<and> env_set (GATEWAY_COGNITO_CLIENT_ID env)
                     \<and> env_set (GATEWAY_COGNITO_CLIENT_SECRET env))"

definition http_error :: "token_env \<Rightarrow> bool" where
  "http_error env =
     (case requests_post env of Inl e \<Rightarrow> True
      | Inr response \<Rightarrow> 400 \<le> status_code response \<and> status_code response < 600)"

definition malformed_response :: "token_env \<Rightarrow> bool" where
  "malformed_response env =
     (case requests_post env of Inl e \<Rightarrow> False
      | Inr response \<Rightarrow>
          (case json_body response of Inl e \<Rightarrow> True
           | Inr token_data \<Rightarrow>
               (case token_data of PDict kvs \<Rightarrow> map_of kvs ''access_token'' = None
                | _ \<Rightarrow> True)))"

text \<open>The call issues no HTTP request.\<close>

definition no_request :: "event list \<Rightarrow> bool" where
  "no_request tr = (Call ''requests.post'' \<notin> set tr)"

subsection \<open>Streaming entrypoints (spa\_multi\_agent\_system\_v8.py)\<close>

text \<open>
  Both entrypoints are async generators: a run is the list of events it yields together
  with the constructors and streams it calls. \<open>memory_id\<close> is the module's global. The
  session manager is built only when \<open>memory_id\<close> is set: \<open>AgentCoreMemoryConfig\<close> is
  called, and \<open>AgentCoreMemorySessionManager\<close> after it unless the first raised; an
  exception of either is caught and leaves \<open>session_manager = None\<close>, which changes only
  the argument of \<open>Agent(...)\<close>. An exception of \<open>Agent(...)\<close>, of the stream or of the
  event handling reaches the outer \<open>except\<close>, which yields one more error event. The
  agent stream gives dictionaries and may end by raising. Logger lines are left out.
\<close>

record agent_env =
  memory_id :: "string option"
  memory_config_raises :: "exception option"
  session_manager_raises :: "exception option"
  agent_raises :: "exception option"
  stream_async :: "pyval \<Rightarrow> (string \<times> pyval) list list \<times> exception option"

text \<open>\<open>payload.get(key)\<close> on a dictionary.\<close>

fun py_get :: "pyval \<Rightarrow> string \<Rightarrow> pyval" where
  "py_get (PDict kvs) k = (case map_of kvs k of None \<Rightarrow> PNone | Some v \<Rightarrow> v)"
| "py_get _ k = PNone"

text \<open>From \<open>session_manager = None\<close> to \<open>Agent(...)\<close>: the calls made, and the exception
  of \<open>Agent(...)\<close> if it raises.\<close>

definition setup_agent :: "agent_env \<Rightarrow> event list \<times> exception option" where
  "setup_agent env =
     ((if env_set (memory_id env)
       then (case memory_config_raises env of
               None \<Rightarrow> [Call ''AgentCoreMemoryConfig'', Call ''AgentCoreMemorySessionManager'']
             | Some e \<Rightarrow> [Call ''AgentCoreMemoryConfig''])
       else [])
      @ [Call ''Agent''],
      agent_raises env)"

definition spa_multi_agent_system :: "agent_env \<Rightarrow> pyval \<Rightarrow> pyval list \<times> event list" where
  "spa_multi_agent_system env payload =
     (if \<not> truthy payload \<or> \<not> is_dict payload
      then ([PDict [(''error'', PStr ''Invalid request format'')]], [])
      else
        (let user_input = py_get payload ''prompt''
         in if \<not> truthy user_input
            then ([PDict [(''error'', PStr ''No prompt provided in request'')]], [])
            else
              (case setup_agent env of
                 (tr, Some e) \<Rightarrow>
                   ([PDict [(''error'', PStr (''Error processing request: '' @ e))]], tr)
               | (tr, None) \<Rightarrow>
                   (case stream_async env user_input of
                      (events, None) \<Rightarrow> (map PDict events, tr @ [Call ''stream_async''])
                    | (events, Some e) \<Rightarrow>
                        (map PDict events
                           @ [PDict [(''error'', PStr (''Error processing request: '' @ e))]],
                         tr @ [Call ''stream_async''])))))"

text \<open>The second entrypoint sorts the agent's events. \<open>chunk[:50]\<close> in the debug line
  needs a string or a list (a dictionary cannot be sliced, another value cannot be
  indexed); \<open>tool_info.get\<close> needs a dictionary; \<open>"".join\<close> needs strings.\<close>

fun sliceable :: "pyval \<Rightarrow> bool" where
  "sliceable (PStr s) = True"
| "sliceable (PList xs) = True"
| "sliceable _ = False"

fun handle_events ::
  "(string \<times> pyval) list list \<Rightarrow> pyval list \<Rightarrow> pyval list \<times> (exception + pyval list)" where
  "handle_events [] full_response = ([], Inr full_response)"
| "handle_events (event # rest) full_response =
     (case map_of event ''data'' of
        Some chunk \<Rightarrow>
          (if sliceable chunk
           then (case handle_events rest (full_response @ [chunk]) of
                   (ys, r) \<Rightarrow> (PDict [(''type'', PStr ''chunk''), (''data'', chunk)] # ys, r))
           else ([PDict [(''type'', PStr ''chunk''), (''data'', chunk)]],
                 Inl (if is_dict chunk then ''unhashable type: '' @ quoted ''slice''
                      else quoted (py_type_name chunk) @ '' object is not subscriptable'')))
      | None \<Rightarrow>
          (case map_of event ''current_tool_use'' of
             Some tool_info \<Rightarrow>
               (case tool_info of
                  PDict ti \<Rightarrow>
                    (case handle_events rest full_response of
                       (ys, r) \<Rightarrow>
                         (PDict [(''type'', PStr ''tool''),
                                 (''data'',
                                  PDict [(''tool_name'',
                                          case map_of ti ''name'' of
                                            None \<Rightarrow> PStr ''unknown'' | Some tool_name \<Rightarrow> tool_name),
                                         (''status'', PStr ''executing'')])] # ys, r))
                | _ \<Rightarrow> ([], Inl (quoted (py_type_name tool_info) @ '' object has no attribute ''
                                   @ quoted ''get'')))
           | None \<Rightarrow> handle_events rest full_response))"

definition spa_multi_agent_system_streaming ::
  "agent_env \<Rightarrow> pyval \<Rightarrow> pyval list \<times> event list" where
  "spa_multi_agent_system_streaming env payload =
     (if \<not> truthy payload \<or> \<not> is_dict payload
      then ([PDict [(''type'', PStr ''error''), (''data'', PStr ''Error: Invalid request format.'')]],
            [])
      else
        (let user_input = py_get payload ''prompt''
         in if \<not> truthy user_input
            then ([PDict [(''type'', PStr ''error''),
                          (''data'', PStr ''Error: No prompt provided in request.'')]], [])
            else
              (case setup_agent env of
                 (tr, Some e) \<Rightarrow>
                   ([PDict [(''type'', PStr ''error''),
                            (''data'', PStr (''Error processing request: '' @ e))]], tr)
               | (tr, None) \<Rightarrow>
                   (case stream_async env user_input of
                      (events, raised) \<Rightarrow>
                        (case handle_events events [] of
                           (ys, Inl e) \<Rightarrow>
                             (ys @ [PDict [(''type'', PStr ''error''),
                                           (''data'', PStr (''Error processing request: '' @ e))]],
                              tr @ [Call ''stream_async''])
                         | (ys, Inr full_response) \<Rightarrow>
                             (case raised of
                                Some e \<Rightarrow>
                                  (ys @ [PDict [(''type'', PStr ''error''),
                                                (''data'', PStr (''Error processing request: '' @ e))]],
                                   tr @ [Call ''stream_async''])
                              | None \<Rightarrow>
                                  (case join_strings 0 full_response of
                                     Inl e \<Rightarrow>
                                       (ys @ [PDict [(''type'', PStr ''error''),
                                                     (''data'', PStr (''Error processing request: '' @ e))]],
                                        tr @ [Call ''stream_async''])
                                   | Inr chunks \<Rightarrow>
                                       (ys @ [PDict [(''type'', PStr ''complete''),
                                                     (''data'', PStr (concat chunks))]],
                                        tr @ [Call ''stream_async'']))))))))"

subsection \<open>Agent tools (spa\_multi\_agent\_system\_v8.py)\<close>

text \<open>
  A tool body runs inside \<open>try\<close>; \<open>except Exception as e\<close> returns a string made from
  \<open>str(e)\<close> (\<open>try_except\<close>). A tool's result is \<open>Inr\<close> of the string it returns, or
  \<open>Inl\<close> of an exception it lets through. The AWS calls are parameters: \<open>start_query_execution\<close> for
  a query and a database, \<open>bedrock_kb.retrieve\<close> for a question, and the Athena polling
  environment of \<open>get_query_results\<close>. A result set is the list \<open>ResultSet.Rows\<close>, a
  row its list \<open>Data\<close>, and a column a dictionary of strings.
\<close>

type_synonym result_set = "(string \<times> string) list list list"

record aws_clients =
  athena_client :: "result_set athena"
  start_query_execution :: "string \<Rightarrow> string \<Rightarrow> exception + string"
  bedrock_kb_retrieve :: "string \<Rightarrow> exception + pyval"
  ATHENA_DB :: string
  COMPLIANCE_DB :: string

text \<open>\<open>lookup_schema\<close>: the list comprehension reads \<open>d["content"]["text"]\<close> of
  every retrieved document, then \<open>"\\n".join\<close> needs every text to be a string.
  Iterating a string or a dictionary gives strings, which cannot be indexed by
  \<open>"content"\<close>; a number cannot be iterated.\<close>

fun doc_texts :: "pyval list \<Rightarrow> exception + pyval list" where
  "doc_texts [] = Inr []"
| "doc_texts (d # ds) =
     (case py_getitem d ''content'' of
        Inl e \<Rightarrow> Inl e
      | Inr content \<Rightarrow>
          (case py_getitem content ''text'' of
             Inl e \<Rightarrow> Inl e
           | Inr text \<Rightarrow>
               (case doc_texts ds of Inl e \<Rightarrow> Inl e | Inr ts \<Rightarrow> Inr (text # ts))))"

definition lookup_schema :: "aws_clients \<Rightarrow> string \<Rightarrow> exception + string" where
  "lookup_schema env question =
     try_except
       (case bedrock_kb_retrieve env question of
          Inl e \<Rightarrow> Inl e
        | Inr response \<Rightarrow>
            (case response of
               PDict kvs \<Rightarrow>
                 (case (case map_of kvs ''retrievalResults'' of None \<Rightarrow> PList [] | Some v \<Rightarrow> v) of
                    docs \<Rightarrow>
                      if \<not> truthy docs then Inr ''No schema information found for your query.''
                      else (case docs of
                              PList ds \<Rightarrow>
                                (case doc_texts ds of
                                   Inl e \<Rightarrow> Inl e
                                 | Inr texts \<Rightarrow>
                                     (case join_strings 0 texts of
                                        Inl e \<Rightarrow> Inl e
                                      | Inr ts \<Rightarrow> Inr (str_join [CHR 0x0A] ts)))
                            | PStr s \<Rightarrow>
                                Inl (''string indices must be integers, not '' @ quoted ''str'')
                            | PDict ks \<Rightarrow>
                                Inl (''string indices must be integers, not '' @ quoted ''str'')
                            | v \<Rightarrow> Inl (quoted (py_type_name v) @ '' object is not iterable'')))
             | v \<Rightarrow> Inl (quoted (py_type_name v) @ '' object has no attribute ''
                          @ quoted ''get'')))
       (\<lambda>e. Inr (''Error accessing schema information: '' @ e))"

text \<open>The formatting of rows shared by \<open>query_athena\<close> and
  \<open>check_vendor_compliance\<close>: the first non-empty value of each column, tab-separated,
  one row per line.\<close>

definition column_value :: "(string \<times> string) list \<Rightarrow> string" where
  "column_value col = (case filter (\<lambda>kv. snd kv \<noteq> []) col of [] \<Rightarrow> [] | kv # _ \<Rightarrow> snd kv)"

definition format_rows :: "result_set \<Rightarrow> string" where
  "format_rows rows =
     str_join [CHR 0x0A] (map (\<lambda>row. str_join [CHR 0x09] (map column_value row)) rows)"

definition query_athena :: "aws_clients \<Rightarrow> string \<Rightarrow> exception + string" where
  "query_athena env query =
     try_except
       (case start_query_execution env query (ATHENA_DB env) of
          Inl e \<Rightarrow> Inl e
        | Inr execution_id \<Rightarrow>
            (case snd (get_query_results (athena_client env)) of
               Inl e \<Rightarrow> Inl e
             | Inr (ErrorDict err) \<Rightarrow> Inr err
             | Inr (QueryResults rows) \<Rightarrow>
                 if rows = [] then Inr ''No results found for your query.''
                 else Inr (format_rows rows)))
       (\<lambda>e. Inr (''Error executing query: '' @ e))"

definition financial_query :: "string \<Rightarrow> string" where
  "financial_query material_number =
     concat [[CHR 0x0A],
       ''        SELECT '', [CHR 0x0A],
       ''            vendor_number, material_number, material_description,'', [CHR 0x0A],
       ''            total_orders, total_invoices, avg_po_price, financial_score'', [CHR 0x0A],
       ''        FROM v_spa_financial_performance '', [CHR 0x0A],
       ''        WHERE material_number = '', [CHR 0x27], material_number, [CHR 0x27], [CHR 0x0A],
       ''        ORDER BY financial_score DESC'', [CHR 0x0A],
       ''        '']"

definition get_financial_performance :: "aws_clients \<Rightarrow> string \<Rightarrow> exception + string" where
  "get_financial_performance env material_number =
     try_except
       (case query_athena env (financial_query material_number) of
          Inl e \<Rightarrow> Inl e
        | Inr result \<Rightarrow>
            if contains result ''No results found''
            then Inr (''No financial performance data found for material '' @ material_number @ ''.'')
            else Inr result)
       (\<lambda>e. Inr (''Error retrieving financial performance data: '' @ e))"

definition quality_query :: "string \<Rightarrow> string" where
  "quality_query material_number =
     concat [[CHR 0x0A],
       ''        SELECT '', [CHR 0x0A],
       ''             vendor_number, total_orders, goods_receipt_rate, '', [CHR 0x0A],
       ''             non_return_rate, overall_quality_score '', [CHR 0x0A],
       ''        FROM v_spa_item_supplier_quality'', [CHR 0x0A],
       ''        WHERE material_number = '', [CHR 0x27], material_number, [CHR 0x27], [CHR 0x0A],
       ''        ORDER BY overall_quality_score DESC'', [CHR 0x0A],
       ''        '']"

definition get_supplier_quality_metrics :: "aws_clients \<Rightarrow> string \<Rightarrow> exception + string" where
  "get_supplier_quality_metrics env material_number =
     try_except
       (case query_athena env (quality_query material_number) of
          Inl e \<Rightarrow> Inl e
        | Inr result \<Rightarrow>
            if contains result ''No results found''
            then Inr (''No quality metrics found for material '' @ material_number @ ''.'')
            else Inr result)
       (\<lambda>e. Inr (''Error retrieving supplier quality metrics: '' @ e))"

definition compliance_query :: "string list \<Rightarrow> string" where
  "compliance_query vendor_list =
     concat [[CHR 0x0A],
       ''        SELECT '', [CHR 0x0A],
       ''             vendor_number, '', [CHR 0x22], ''REACH Compliant'', [CHR 0x22], '', '',
       [CHR 0x22], ''ROHS Compliant'', [CHR 0x22], '', '', [CHR 0x22], ''CMRT'', [CHR 0x22], '', '',
       [CHR 0x22], ''RBA'', [CHR 0x22], [CHR 0x0A],
       ''        FROM v_compliance_by_vendor'', [CHR 0x0A],
       ''        WHERE vendor_number IN ('', [CHR 0x27],
       str_join [CHR 0x27, CHR '','', CHR 0x27] vendor_list, [CHR 0x27], '')'', [CHR 0x0A],
       ''        ORDER BY vendor_number'', [CHR 0x0A],
       ''        '']"

definition check_vendor_compliance :: "aws_clients \<Rightarrow> string \<Rightarrow> exception + string" where
  "check_vendor_compliance env vendor_numbers =
     try_except
       (if str_lower vendor_numbers \<in> set [''context'', ''previous'', ''these'', ''those'',
             ''mentioned'', ''these vendors'', ''those suppliers'']
        then Inr (''I can see you'' @ [CHR 0x27] @ ''re referring to previously mentioned vendors. Please provide the specific vendor numbers, or I can help if you tell me which material''
                  @ [CHR 0x27] @ ''s vendors you want compliance data for.'')
        else
          (let vendor_numbers' =
                 (if starts_with vendor_numbers ''['' \<and> ends_with vendor_numbers '']''
                  then filter (\<lambda>c. c \<notin> set [CHR ''['', CHR '']'', CHR 0x22, CHR 0x27]) vendor_numbers
                  else vendor_numbers);
               vendor_list = filter (\<lambda>v. v \<noteq> [])
                               (map str_strip (split_char CHR '','' vendor_numbers'))
           in if vendor_list = []
              then Inr ''Please provide vendor numbers to check compliance data.''
              else
                (case start_query_execution env (compliance_query vendor_list) (COMPLIANCE_DB env) of
                   Inl e \<Rightarrow> Inl e
                 | Inr execution_id \<Rightarrow>
                     (case snd (get_query_results (athena_client env)) of
                        Inl e \<Rightarrow> Inl e
                      | Inr (ErrorDict err) \<Rightarrow>
                          Inr (''Error querying compliance database: '' @ err)
                      | Inr (QueryResults rows) \<Rightarrow>
                          if length rows \<le> 1
                          then Inr (''No compliance data found for vendors: ''
                                    @ str_join '', '' vendor_list
                                    @ ''. Please verify these vendor numbers exist in your compliance system.'')
                          else Inr (format_rows rows)))))
       (\<lambda>e. Inr (''Error retrieving compliance data: '' @ e))"

subsection \<open>Regular expressions as Python's \<open>re\<close> matches them\<close>

text \<open>
  The patterns of the repository use literals, character classes, \<open>\s\<close>, \<open>\b\<close>,
  greedy repetition of a class (\<open>+\<close>, \<open>*\<close>, \<open>?\<close>, \<open>{m,n}\<close>), optional groups,
  alternation and one capturing group, all under \<open>re.IGNORECASE\<close>. The matcher below is
  the backtracking search of \<open>re\<close> for this fragment: alternatives are tried left to
  right, an optional part is tried present before absent, a repetition tries the longest
  run first and gives back one character at a time. A text is a string of characters with
  code points below 256. The continuation receives the character before the current
  position (for \<open>\b\<close>), the rest of the text and the text of group 1.
\<close>

datatype item = Single char | Range char char | Whitespace

datatype cls = Pos "item list" | Neg "item list"

datatype rx =
    Eps
  | Lit char
  | Cls cls
  | Seq rx rx
  | Alt rx rx
  | Opt rx
  | Rep cls nat "nat option"
  | Grp rx
  | WordB

definition upper_char :: "char \<Rightarrow> char" where
  "upper_char c = (if (97::nat) \<le> of_char c \<and> of_char c \<le> (122::nat)
                   then char_of (of_char c - (32::nat)) else c)"

fun item_match :: "item \<Rightarrow> char \<Rightarrow> bool" where
  "item_match (Single c) x = (x = c)"
| "item_match (Range lo hi) x = ((of_char lo :: nat) \<le> of_char x \<and> (of_char x :: nat) \<le> of_char hi)"
| "item_match Whitespace x = is_space x"

text \<open>Under \<open>IGNORECASE\<close> a character is in a set when it or its other case is.\<close>

definition in_items :: "item list \<Rightarrow> char \<Rightarrow> bool" where
  "in_items its x = list_ex (\<lambda>it. item_match it x \<or> item_match it (lower_char x)
                                  \<or> item_match it (upper_char x)) its"

fun cls_match :: "cls \<Rightarrow> char \<Rightarrow> bool" where
  "cls_match (Pos its) x = in_items its x"
| "cls_match (Neg its) x = (\<not> in_items its x)"

text \<open>\<open>\w\<close>: the alphanumeric characters below 256 and the underscore.\<close>

definition is_word :: "char \<Rightarrow> bool" where
  "is_word c = (let n = (of_char c :: nat)
                in (48 \<le> n \<and> n \<le> 57) \<or> (65 \<le> n \<and> n \<le> 90) \<or> n = 95 \<or> (97 \<le> n \<and> n \<le> 122)
                   \<or> n = 170 \<or> n = 178 \<or> n = 179 \<or> n = 181 \<or> n = 185 \<or> n = 186
                   \<or> (188 \<le> n \<and> n \<le> 190) \<or> (192 \<le> n \<and> n \<le> 214)
                   \<or> (216 \<le> n \<and> n \<le> 246) \<or> 248 \<le> n)"

definition at_boundary :: "char option \<Rightarrow> string \<Rightarrow> bool" where
  "at_boundary prev s =
     ((case prev of None \<Rightarrow> False | Some c \<Rightarrow> is_word c)
      \<noteq> (case s of [] \<Rightarrow> False | c # _ \<Rightarrow> is_word c))"

text \<open>\<open>backtrack lo n f\<close> tries \<open>f n\<close>, \<open>f (n - 1)\<close>, ... down to \<open>f lo\<close>.\<close>

fun backtrack :: "nat \<Rightarrow> nat \<Rightarrow> (nat \<Rightarrow> 'r option) \<Rightarrow> 'r option" where
  "backtrack lo 0 f = (if lo = 0 then f 0 else None)"
| "backtrack lo (Suc n) f =
     (if Suc n < lo then None
      else (case f (Suc n) of Some r \<Rightarrow> Some r | None \<Rightarrow> backtrack lo n f))"

definition char_before :: "char option \<Rightarrow> string \<Rightarrow> nat \<Rightarrow> char option" where
  "char_before prev s i = (if i = 0 then prev else Some (s ! (i - 1)))"

fun rx_match ::
  "rx \<Rightarrow> char option \<Rightarrow> string \<Rightarrow> string option
     \<Rightarrow> (char option \<Rightarrow> string \<Rightarrow> string option \<Rightarrow> 'r option) \<Rightarrow> 'r option" where
  "rx_match Eps prev s cap k = k prev s cap"
| "rx_match (Lit c) prev s cap k =
     (case s of [] \<Rightarrow> None
      | x # xs \<Rightarrow> if lower_char x = lower_char c then k (Some x) xs cap else None)"
| "rx_match (Cls cl) prev s cap k =
     (case s of [] \<Rightarrow> None
      | x # xs \<Rightarrow> if cls_match cl x then k (Some x) xs cap else None)"
| "rx_match (Seq a b) prev s cap k =
     rx_match a prev s cap (\<lambda>prev' s' cap'. rx_match b prev' s' cap' k)"
| "rx_match (Alt a b) prev s cap k =
     (case rx_match a prev s cap k of Some r \<Rightarrow> Some r | None \<Rightarrow> rx_match b prev s cap k)"
| "rx_match (Opt a) prev s cap k =
     (case rx_match a prev s cap k of Some r \<Rightarrow> Some r | None \<Rightarrow> k prev s cap)"
| "rx_match (Rep cl lo hi) prev s cap k =
     (let n = length (takeWhile (cls_match cl) s);
          n' = (case hi of None \<Rightarrow> n | Some h \<Rightarrow> min n h)
      in backtrack lo n' (\<lambda>i. k (char_before prev s i) (drop i s) cap))"
| "rx_match (Grp a) prev s cap k =
     rx_match a prev s cap
       (\<lambda>prev' s' cap'. k prev' s' (Some (take (length s - length s') s)))"
| "rx_match WordB prev s cap k = (if at_boundary prev s then k prev s cap else None)"

text \<open>A match that starts at the current position: the character before its end, the
  rest of the text after it, and group 1.\<close>

definition match_here :: "rx \<Rightarrow> char option \<Rightarrow> string \<Rightarrow> (char option \<times> string \<times> string option) option" where
  "match_here r prev s = rx_match r prev s None (\<lambda>prev' s' cap'. Some (prev', s', cap'))"

text \<open>\<open>re.search\<close>: the first position, from the left, where the pattern matches; the
  result is the text of group 1 (\<open>match.group(1)\<close>, \<open>None\<close> when the group took no
  part).\<close>

fun search_from :: "rx \<Rightarrow> char option \<Rightarrow> string \<Rightarrow> string option option" where
  "search_from r prev [] =
     (case match_here r prev [] of None \<Rightarrow> None | Some (p, s', cap) \<Rightarrow> Some cap)"
| "search_from r prev (c # s) =
     (case match_here r prev (c # s) of
        Some (p, s', cap) \<Rightarrow> Some cap
      | None \<Rightarrow> search_from r (Some c) s)"

definition re_search :: "rx \<Rightarrow> string \<Rightarrow> string option option" where
  "re_search r s = search_from r None s"

text \<open>\<open>re.finditer\<close> for a pattern with one group: the successive matches, each
  search starting where the last match ended (one character further after an empty
  match). A match is given by the number of characters from its start to the end of the
  text and by the text of group 1, an absent group counting as the empty string.
  \<open>re.findall\<close> gives the group texts.\<close>

function finditer_from :: "rx \<Rightarrow> char option \<Rightarrow> string \<Rightarrow> (nat \<times> string) list" where
  "finditer_from r prev s =
     (case match_here r prev s of
        None \<Rightarrow> (case s of [] \<Rightarrow> [] | c # s' \<Rightarrow> finditer_from r (Some c) s')
      | Some (p, s', cap) \<Rightarrow>
          (length s, case cap of None \<Rightarrow> [] | Some g \<Rightarrow> g)
          # (if length s' < length s then finditer_from r p s'
             else (case s of [] \<Rightarrow> [] | c # s'' \<Rightarrow> finditer_from r (Some c) s'')))"
  by pat_completeness auto
termination
  by (relation "measure (\<lambda>(r, prev, s). length s)") auto

definition re_findall :: "rx \<Rightarrow> string \<Rightarrow> string list" where
  "re_findall r s = map snd (finditer_from r None s)"

text \<open>Shorthands for writing the patterns.\<close>

fun lit :: "string \<Rightarrow> rx" where
  "lit [] = Eps"
| "lit [c] = Lit c"
| "lit (c # cs) = Seq (Lit c) (lit cs)"

fun seq :: "rx list \<Rightarrow> rx" where
  "seq [] = Eps"
| "seq [r] = r"
| "seq (r # rs) = Seq r (seq rs)"

definition ws :: cls where "ws = Pos [Whitespace]"
definition digit :: cls where "digit = Pos [Range CHR ''0'' CHR ''9'']"
definition upper :: cls where "upper = Pos [Range CHR ''A'' CHR ''Z'']"
definition upper_digit :: cls where
  "upper_digit = Pos [Range CHR ''A'' CHR ''Z'', Range CHR ''0'' CHR ''9'']"
definition upper_digit_dash :: cls where
  "upper_digit_dash = Pos [Range CHR ''A'' CHR ''Z'', Range CHR ''0'' CHR ''9'', Single CHR ''-'']"
definition alnum_dash :: cls where
  "alnum_dash = Pos [Range CHR ''A'' CHR ''Z'', Range CHR ''a'' CHR ''z'',
                     Range CHR ''0'' CHR ''9'', Single CHR ''-'']"
definition quote :: cls where "quote = Pos [Single (CHR 0x22), Single (CHR 0x27)]"
definition name_char :: cls where
  "name_char = Neg [Single (CHR 0x22), Single (CHR 0x27), Single CHR '';'', Single (CHR 0x0A)]"

text \<open>\<open>[0-9]{4}-[0-9]{2}-[0-9]{2}\<close>\<close>

definition iso_date :: rx where
  "iso_date = seq [Rep digit 4 (Some 4), Lit CHR ''-'', Rep digit 2 (Some 2), Lit CHR ''-'',
                   Rep digit 2 (Some 2)]"




subsection \<open>RFQ validation (spa\_multi\_agent\_system\_v8.py, \<open>validate_rfq_data\<close>)\<close>

text \<open>The four patterns of \<open>validate_rfq_data\<close>:
  \<^verbatim>\<open>material\s+number\s*:?\s*([A-Za-z0-9\-]+)\<close>,
  \<^verbatim>\<open>supplier\s+id\s*:?\s*([A-Za-z0-9\-]+)\<close>,
  \<^verbatim>\<open>quantity\s*:?\s*([0-9]+)\<close> and
  \<^verbatim>\<open>delivery\s+date\s*:?\s*([0-9]{4}-[0-9]{2}-[0-9]{2})\<close>.\<close>

definition material_rx :: rx where
  "material_rx = seq [lit ''material'', Rep ws 1 None, lit ''number'', Rep ws 0 None,
                      Opt (Lit CHR '':''), Rep ws 0 None, Grp (Rep alnum_dash 1 None)]"

definition supplier_rx :: rx where
  "supplier_rx = seq [lit ''supplier'', Rep ws 1 None, lit ''id'', Rep ws 0 None,
                      Opt (Lit CHR '':''), Rep ws 0 None, Grp (Rep alnum_dash 1 None)]"

definition quantity_rx :: rx where
  "quantity_rx = seq [lit ''quantity'', Rep ws 0 None, Opt (Lit CHR '':''), Rep ws 0 None,
                      Grp (Rep digit 1 None)]"

definition delivery_rx :: rx where
  "delivery_rx = seq [lit ''delivery'', Rep ws 1 None, lit ''date'', Rep ws 0 None,
                      Opt (Lit CHR '':''), Rep ws 0 None, Grp iso_date]"

text \<open>\<open>match.group(1) if match else None\<close>\<close>

definition group1 :: "string option option \<Rightarrow> string option" where
  "group1 m = (case m of None \<Rightarrow> None | Some g \<Rightarrow> g)"

text \<open>\<open>field.replace('_', ' ').title()\<close> on ASCII text: a letter is upper case after a
  character that is no letter, lower case after a letter.\<close>

definition is_letter :: "char \<Rightarrow> bool" where
  "is_letter c = (let n = (of_char c :: nat) in (65 \<le> n \<and> n \<le> 90) \<or> (97 \<le> n \<and> n \<le> 122))"

fun title_from :: "bool \<Rightarrow> string \<Rightarrow> string" where
  "title_from after_letter [] = []"
| "title_from after_letter (c # s) =
     (if after_letter then lower_char c else upper_char c) # title_from (is_letter c) s"

definition field_title :: "string \<Rightarrow> string" where
  "field_title field = title_from False (map (\<lambda>c. if c = CHR ''_'' then CHR '' '' else c) field)"

text \<open>\<open>json.dumps\<close> of a dictionary whose values are strings or \<open>None\<close>, with the
  default separators and \<open>ensure_ascii\<close>: a character outside the range from space to
  \<open>~\<close>, a double quote and a backslash are escaped.\<close>

definition hex_digit :: "nat \<Rightarrow> char" where
  "hex_digit n = (if n < 10 then char_of (48 + n) else char_of (87 + n))"

definition json_escape :: "char \<Rightarrow> string" where
  "json_escape c =
     (let n = (of_char c :: nat)
      in if c = CHR 0x22 then [CHR 0x5C, CHR 0x22]
         else if c = CHR 0x5C then [CHR 0x5C, CHR 0x5C]
         else if n = 10 then [CHR 0x5C, CHR ''n'']
         else if n = 13 then [CHR 0x5C, CHR ''r'']
         else if n = 9 then [CHR 0x5C, CHR ''t'']
         else if n = 8 then [CHR 0x5C, CHR ''b'']
         else if n = 12 then [CHR 0x5C, CHR ''f'']
         else if n < 32 \<or> 126 < n
         then [CHR 0x5C, CHR ''u'', CHR ''0'', CHR ''0'', hex_digit (n div 16), hex_digit (n mod 16)]
         else [c])"

definition json_string :: "string \<Rightarrow> string" where
  "json_string s = CHR 0x22 # concat (map json_escape s) @ [CHR 0x22]"

definition json_value :: "string option \<Rightarrow> string" where
  "json_value v = (case v of None \<Rightarrow> ''null'' | Some s \<Rightarrow> json_string s)"

definition json_dumps :: "(string \<times> string option) list \<Rightarrow> string" where
  "json_dumps d =
     ''{'' @ str_join '', '' (map (\<lambda>(k, v). json_string k @ '': '' @ json_value v) d) @ ''}''"

text \<open>\<open>if not value\<close>: \<open>None\<close> or the empty string.\<close>

definition falsy_value :: "string option \<Rightarrow> bool" where
  "falsy_value v = (case v of None \<Rightarrow> True | Some s \<Rightarrow> s = [])"

definition validate_rfq_data :: "string \<Rightarrow> exception + string" where
  "validate_rfq_data user_input =
     try_except
       (let material_match = re_search material_rx user_input;
            supplier_match = re_search supplier_rx user_input;
            quantity_match = re_search quantity_rx user_input;
            delivery_match = re_search delivery_rx user_input;
            extracted_data = [(''material_number'', group1 material_match),
                              (''supplier_id'', group1 supplier_match),
                              (''quantity'', group1 quantity_match),
                              (''delivery_date'', group1 delivery_match)];
            missing_fields = map (\<lambda>(field, v). field_title field)
                               (filter (\<lambda>(field, v). falsy_value v) extracted_data)
        in if missing_fields \<noteq> []
           then Inr (''Missing required information: '' @ str_join '', '' missing_fields)
           else Inr (''RFQ data validated successfully: '' @ json_dumps extracted_data))
       (\<lambda>e. Inr (''Error validating RFQ data: '' @ e))"

subsection \<open>RFQ field extraction (spa\_multi\_agent\_system\_v8.py,
  \<open>_extract_rfq_data_from_context\<close>)\<close>

text \<open>The pattern lists, in the order of the source.
  \<^verbatim>\<open>material\s+(?:number\s*)?:?\s*([A-Z0-9\-]+)\<close>,
  \<^verbatim>\<open>for\s+material\s+([A-Z0-9\-]+)\<close>,
  \<^verbatim>\<open>mat\s*:?\s*([A-Z0-9\-]+)\<close>,
  \<^verbatim>\<open>\b([A-Z]{2,4}-[A-Z]{2,4}-[A-Z0-9]{3,6}-[0-9]{2})\b\<close>\<close>

definition material_patterns :: "rx list" where
  "material_patterns =
     [seq [lit ''material'', Rep ws 1 None, Opt (seq [lit ''number'', Rep ws 0 None]),
           Opt (Lit CHR '':''), Rep ws 0 None, Grp (Rep upper_digit_dash 1 None)],
      seq [lit ''for'', Rep ws 1 None, lit ''material'', Rep ws 1 None,
           Grp (Rep upper_digit_dash 1 None)],
      seq [lit ''mat'', Rep ws 0 None, Opt (Lit CHR '':''), Rep ws 0 None,
           Grp (Rep upper_digit_dash 1 None)],
      seq [WordB,
           Grp (seq [Rep upper 2 (Some 4), Lit CHR ''-'', Rep upper 2 (Some 4), Lit CHR ''-'',
                     Rep upper_digit 3 (Some 6), Lit CHR ''-'', Rep digit 2 (Some 2)]),
           WordB]]"

text \<open>
  \<^verbatim>\<open>supplier\s+(?:id\s*)?:?\s*([A-Z0-9\-]+)\<close>,
  \<^verbatim>\<open>vendor\s+(?:id\s*)?:?\s*([A-Z0-9\-]+)\<close>,
  \<^verbatim>\<open>to\s+vendor\s+([A-Z0-9\-]+)\<close>,
  \<^verbatim>\<open>from\s+supplier\s+([A-Z0-9\-]+)\<close>,
  \<^verbatim>\<open>\b([A-Z]{3,5}-[A-Z0-9]{3,8})\b\<close>\<close>

definition supplier_patterns :: "rx list" where
  "supplier_patterns =
     [seq [lit ''supplier'', Rep ws 1 None, Opt (seq [lit ''id'', Rep ws 0 None]),
           Opt (Lit CHR '':''), Rep ws 0 None, Grp (Rep upper_digit_dash 1 None)],
      seq [lit ''vendor'', Rep ws 1 None, Opt (seq [lit ''id'', Rep ws 0 None]),
           Opt (Lit CHR '':''), Rep ws 0 None, Grp (Rep upper_digit_dash 1 None)],
      seq [lit ''to'', Rep ws 1 None, lit ''vendor'', Rep ws 1 None,
           Grp (Rep upper_digit_dash 1 None)],
      seq [lit ''from'', Rep ws 1 None, lit ''supplier'', Rep ws 1 None,
           Grp (Rep upper_digit_dash 1 None)],
      seq [WordB,
           Grp (seq [Rep upper 3 (Some 5), Lit CHR ''-'', Rep upper_digit 3 (Some 8)]),
           WordB]]"

text \<open>
  \<^verbatim>\<open>quantity\s*:?\s*([0-9]+)\<close>,
  \<^verbatim>\<open>qty\s*:?\s*([0-9]+)\<close>,
  \<^verbatim>\<open>for\s+quantity\s+([0-9]+)\<close>,
  \<^verbatim>\<open>amount\s*:?\s*([0-9]+)\<close>,
  \<^verbatim>\<open>\b([0-9]{1,6})\s+(?:units?|pieces?|pcs?)\<close>,
  \<^verbatim>\<open>(?:qty|quantity)\s+([0-9]+)\<close>\<close>

definition quantity_patterns :: "rx list" where
  "quantity_patterns =
     [seq [lit ''quantity'', Rep ws 0 None, Opt (Lit CHR '':''), Rep ws 0 None,
           Grp (Rep digit 1 None)],
      seq [lit ''qty'', Rep ws 0 None, Opt (Lit CHR '':''), Rep ws 0 None,
           Grp (Rep digit 1 None)],
      seq [lit ''for'', Rep ws 1 None, lit ''quantity'', Rep ws 1 None, Grp (Rep digit 1 None)],
      seq [lit ''amount'', Rep ws 0 None, Opt (Lit CHR '':''), Rep ws 0 None,
           Grp (Rep digit 1 None)],
      seq [WordB, Grp (Rep digit 1 (Some 6)), Rep ws 1 None,
           Alt (seq [lit ''unit'', Opt (Lit CHR ''s'')])
               (Alt (seq [lit ''piece'', Opt (Lit CHR ''s'')])
                    (seq [lit ''pc'', Opt (Lit CHR ''s'')]))],
      seq [Alt (lit ''qty'') (lit ''quantity''), Rep ws 1 None, Grp (Rep digit 1 None)]]"

text \<open>
  \<^verbatim>\<open>delivery\s+date\s*:?\s*([0-9]{4}-[0-9]{2}-[0-9]{2})\<close>,
  \<^verbatim>\<open>delivery\s*:?\s*([0-9]{4}-[0-9]{2}-[0-9]{2})\<close>,
  \<^verbatim>\<open>date\s*:?\s*([0-9]{4}-[0-9]{2}-[0-9]{2})\<close>,
  \<^verbatim>\<open>by\s+([0-9]{4}-[0-9]{2}-[0-9]{2})\<close>,
  \<^verbatim>\<open>on\s+([0-9]{4}-[0-9]{2}-[0-9]{2})\<close>\<close>

definition delivery_patterns :: "rx list" where
  "delivery_patterns =
     [seq [lit ''delivery'', Rep ws 1 None, lit ''date'', Rep ws 0 None, Opt (Lit CHR '':''),
           Rep ws 0 None, Grp iso_date],
      seq [lit ''delivery'', Rep ws 0 None, Opt (Lit CHR '':''), Rep ws 0 None, Grp iso_date],
      seq [lit ''date'', Rep ws 0 None, Opt (Lit CHR '':''), Rep ws 0 None, Grp iso_date],
      seq [lit ''by'', Rep ws 1 None, Grp iso_date],
      seq [lit ''on'', Rep ws 1 None, Grp iso_date]]"

text \<open>The six name patterns share the tail
  \<^verbatim>\<open>\s*:?\s*["\']?([^"\';\n]+)["\']?\<close> after
  \<^verbatim>\<open>rfq\s+name\<close>, \<^verbatim>\<open>name\<close>, \<^verbatim>\<open>rfq\s+title\<close>, \<^verbatim>\<open>title\<close>,
  \<^verbatim>\<open>call\s+(?:it|this)\<close> and \<^verbatim>\<open>named?\<close>.\<close>

definition name_tail :: "rx list" where
  "name_tail = [Rep ws 0 None, Opt (Lit CHR '':''), Rep ws 0 None, Opt (Cls quote),
                Grp (Rep name_char 1 None), Opt (Cls quote)]"

definition rfq_name_patterns :: "rx list" where
  "rfq_name_patterns =
     [seq ([lit ''rfq'', Rep ws 1 None, lit ''name''] @ name_tail),
      seq ([lit ''name''] @ name_tail),
      seq ([lit ''rfq'', Rep ws 1 None, lit ''title''] @ name_tail),
      seq ([lit ''title''] @ name_tail),
      seq ([lit ''call'', Rep ws 1 None, Alt (lit ''it'') (lit ''this'')] @ name_tail),
      seq ([lit ''name'', Opt (Lit CHR ''d'')] @ name_tail)]"

text \<open>The loop \<open>for pattern in patterns: matches = re.findall(...); if matches: value =
  matches[-1]; break\<close>, with the initial \<open>None\<close>.\<close>

fun extract_field :: "rx list \<Rightarrow> string \<Rightarrow> string option" where
  "extract_field [] full_text = None"
| "extract_field (pattern # rest) full_text =
     (let matches = re_findall pattern full_text
      in if matches \<noteq> [] then Some (last matches) else extract_field rest full_text)"

record rfq_data =
  material_number :: "string option"
  supplier_id :: "string option"
  quantity :: "string option"
  delivery_date :: "string option"
  rfq_name :: "string option"

text \<open>Nothing in the \<open>try\<close> block raises on two strings, so the function is the block;
  \<open>rfq_name\<close> is the match with \<open>.strip()\<close> applied.\<close>

definition extract_rfq_data_from_context :: "string \<Rightarrow> string \<Rightarrow> rfq_data" where
  "extract_rfq_data_from_context user_input conversation_context =
     (let full_text = conversation_context @ [CHR 0x0A] @ user_input
      in \<lparr>material_number = extract_field material_patterns full_text,
          supplier_id = extract_field supplier_patterns full_text,
          quantity = extract_field quantity_patterns full_text,
          delivery_date = extract_field delivery_patterns full_text,
          rfq_name = map_option str_strip (extract_field rfq_name_patterns full_text)\<rparr>)"

text \<open>The claim's words, "the last regex match for that field in the combined text": of
  all the matches of all the patterns of the field, one that starts last (with the fewest
  characters from its start to the end of the text).\<close>

fun latest :: "(nat \<times> string) list \<Rightarrow> (nat \<times> string) option" where
  "latest [] = None"
| "latest (m # ms) =
     (case latest ms of
        None \<Rightarrow> Some m
      | Some m' \<Rightarrow> if fst m' \<le> fst m then Some m' else Some m)"

definition spec_last_match :: "rx list \<Rightarrow> string \<Rightarrow> string option" where
  "spec_last_match patterns full_text =
     map_option snd (latest (concat (map (\<lambda>p. finditer_from p None full_text) patterns)))"

text \<open>What the loop computes: the last match of the first pattern, in list order, that
  matches at all.\<close>

definition first_pattern_last_match :: "rx list \<Rightarrow> string \<Rightarrow> string option" where
  "first_pattern_last_match patterns full_text =
     (case filter (\<lambda>p. re_findall p full_text \<noteq> []) patterns of
        [] \<Rightarrow> None
      | p # _ \<Rightarrow> Some (last (re_findall p full_text)))"

section \<open>Verification\<close>

subsection \<open>A loop bounded by a counter stops at a first index\<close>

lemma stop_index_exists:
  fixes P :: "nat \<Rightarrow> bool"
  shows "\<exists>k\<le>n. (\<forall>i<k. \<not> P i) \<and> (P k \<or> k = n)"
proof (cases "\<exists>k\<le>n. P k")
  case True
  define k where "k = (LEAST k. P k)"
  from True obtain k0 where k0: "k0 \<le> n" "P k0" by blast
  have "P k" unfolding k_def using k0(2) by (rule LeastI)
  moreover have "k \<le> k0" unfolding k_def using k0(2) by (rule Least_le)
  moreover have "\<forall>i<k. \<not> P i" unfolding k_def using not_less_Least by blast
  ultimately show ?thesis using k0(1) by (intro exI [of _ k]) simp
next
  case False
  then show ?thesis by (intro exI [of _ n]) auto
qed

subsection \<open>Effects of a trace\<close>

lemma effects_append [simp]: "effects (xs @ ys) = effects xs @ effects ys"
  by (simp add: effects_def)

lemma effects_simps [simp]:
  "effects [] = []"
  "effects (Print s # xs) = effects xs"
  "effects (Call c # xs) = Call c # effects xs"
  "effects (Sleep n # xs) = Sleep n # effects xs"
  "effects (Log s # xs) = Log s # effects xs"
  by (simp_all add: effects_def)

subsection \<open>A handler that returns never lets an exception through\<close>

lemma try_except_returns:
  "try_except body (\<lambda>e. Inr (f e)) = Inr (case body of Inl e \<Rightarrow> f e | Inr v \<Rightarrow> v)"
  by (simp add: try_except_def split: sum.splits)

subsection \<open>Authorizer configuration\<close>

text \<open>
  C8. The runtime deployment and the gateway creation both configure a
  \<open>customJWTAuthorizer\<close> whose \<open>discoveryUrl\<close> is
  \<open>https://cognito-idp.<region>.amazonaws.com/<user-pool-id>/.well-known/openid-configuration\<close>
  for the supplied region and user pool, and whose \<open>allowedClients\<close> list holds
  exactly the one supplied Cognito client id.
\<close>

theorem authorizer_configuration_cognito:
  "authorizer_field (deploy_authorizer_configuration region pool client) ''discoveryUrl''
     = Some (JStr (spec_openid_configuration_url region pool))
   \<and> authorizer_field (deploy_authorizer_configuration region pool client) ''allowedClients''
     = Some (JArr [JStr client])
   \<and> authorizer_field (gateway_authorizer_config region pool client) ''discoveryUrl''
     = Some (JStr (spec_openid_configuration_url region pool))
   \<and> authorizer_field (gateway_authorizer_config region pool client) ''allowedClients''
     = Some (JArr [JStr client])"
  by (simp add: authorizer_field_def deploy_authorizer_configuration_def
      gateway_authorizer_config_def deploy_discovery_url_def gateway_discovery_url_def
      spec_openid_configuration_url_def)

subsection \<open>Athena polling\<close>

declare query_wait_loop.simps [simp del]







subsection \<open>Deployment monitor\<close>

declare monitor_loop.simps [simp del]

lemma monitor_loop_step:
  assumes "\<not> ends_monitoring (st c)" "a + 1 < m"
  shows "\<exists>X s'. monitor_loop st m a c s tr = monitor_loop st m (a + 1) (Suc c) s' (tr @ X)
           \<and> effects X = [Call ''agentcore_runtime.status'', Sleep 30]
           \<and> Print ''[SUCCESS] Deployment successful!'' \<notin> set X
           \<and> (s \<noteq> ''READY'' \<longrightarrow> s' \<noteq> ''READY'')"
proof (cases "st c")
  case (Inl e)
  have "monitor_loop st m a c s tr = monitor_loop st m (a + 1) (Suc c) s
          (tr @ [Call ''agentcore_runtime.status'', Print (''Status check error: '' @ e), Sleep 30])"
    using Inl assms(2) by (subst monitor_loop.simps) simp
  then show ?thesis
    by (intro exI [of _ "[Call ''agentcore_runtime.status'',
                          Print (''Status check error: '' @ e), Sleep 30]"] exI [of _ s]) simp
next
  case (Inr r)
  define s' where "s' = (case r of None \<Rightarrow> ''UNKNOWN'' | Some x \<Rightarrow> x)"
  define p where "p = ''Attempt '' @ str_nat (a + 1) @ ''/'' @ str_nat m @ '' - Status: '' @ s'"
  have s': "s' \<noteq> ''READY''"
    "s' \<notin> set [''CREATE_FAILED'', ''DELETE_FAILED'', ''UPDATE_FAILED'', ''FAILED'']"
    using assms(1) Inr
    by (auto simp: s'_def ends_monitoring_def reports_failure_def reported_def
             split: option.splits)
  have "monitor_loop st m a c s tr = monitor_loop st m (a + 1) (Suc c) s'
          (tr @ [Call ''agentcore_runtime.status'', Print p, Sleep 30])"
    using Inr assms(2) s'
    by (subst monitor_loop.simps) (simp add: Let_def s'_def [symmetric] p_def)
  moreover have "p \<noteq> ''[SUCCESS] Deployment successful!''"
    by (simp add: p_def)
  ultimately show ?thesis using s'(1)
    by (intro exI [of _ "[Call ''agentcore_runtime.status'', Print p, Sleep 30]"] exI [of _ s'])
       simp
qed

lemma monitor_loop_running:
  assumes "\<forall>i<j. \<not> ends_monitoring (st (c + i))" "a + j < m"
  shows "\<exists>X s'. monitor_loop st m a c s tr = monitor_loop st m (a + j) (c + j) s' (tr @ X)
           \<and> effects X = concat (replicate j [Call ''agentcore_runtime.status'', Sleep 30])
           \<and> Print ''[SUCCESS] Deployment successful!'' \<notin> set X
           \<and> (s \<noteq> ''READY'' \<longrightarrow> s' \<noteq> ''READY'')"
  using assms
proof (induction j arbitrary: a c s tr)
  case 0
  show ?case by (intro exI [of _ "[]"] exI [of _ s]) simp
next
  case (Suc j)
  have nt: "\<not> ends_monitoring (st c)" using Suc.prems(1) by force
  have am: "a + 1 < m" using Suc.prems(2) by simp
  from monitor_loop_step [where st = st and c = c and s = s and tr = tr, OF nt am]
  obtain X s' where X: "monitor_loop st m a c s tr = monitor_loop st m (a + 1) (Suc c) s' (tr @ X)"
    "effects X = [Call ''agentcore_runtime.status'', Sleep 30]"
    "Print ''[SUCCESS] Deployment successful!'' \<notin> set X"
    "s \<noteq> ''READY'' \<longrightarrow> s' \<noteq> ''READY''"
    by blast
  have hyp: "\<forall>i<j. \<not> ends_monitoring (st (Suc c + i))"
    using Suc.prems(1) by (metis Suc_less_eq add_Suc_shift)
  have "a + 1 + j < m" using Suc.prems(2) by simp
  from Suc.IH [where c = "Suc c" and s = s' and tr = "tr @ X", OF hyp this]
  obtain Y s'' where Y:
    "monitor_loop st m (a + 1) (Suc c) s' (tr @ X)
       = monitor_loop st m (a + 1 + j) (Suc c + j) s'' ((tr @ X) @ Y)"
    "effects Y = concat (replicate j [Call ''agentcore_runtime.status'', Sleep 30])"
    "Print ''[SUCCESS] Deployment successful!'' \<notin> set Y"
    "s' \<noteq> ''READY'' \<longrightarrow> s'' \<noteq> ''READY''"
    by blast
  show ?case
    using X Y by (intro exI [of _ "X @ Y"] exI [of _ s'']) simp
qed

text \<open>
  C7. The deployment monitor polls the runtime status at most 60 times with a 30-second
  sleep between polls. With \<open>k\<close> the index of the last poll (the first that reports
  READY or a failed status, or 59 when none of the 60 does): it declares success exactly
  when that poll reports READY; it aborts and cleans up the temporary files when that poll
  reports CREATE\_FAILED, DELETE\_FAILED, UPDATE\_FAILED or FAILED; otherwise the 60 polls
  are used up and the deployment is timed out (and cleaned up). A poll that raises counts
  as one attempt like any other poll.
\<close>

theorem monitor_deployment_polling:
  fixes st :: "nat \<Rightarrow> exception + string option"
  shows "(\<exists>k<60. (\<forall>i<k. \<not> ends_monitoring (st i)) \<and> (ends_monitoring (st k) \<or> k = 59))
       \<and> (\<forall>k<60. (\<forall>i<k. \<not> ends_monitoring (st i)) \<and> (ends_monitoring (st k) \<or> k = 59) \<longrightarrow>
            snd (monitor_deployment st) =
              (if reported (st k) = Some ''READY'' then DeploymentReady
               else if reports_failure (st k) then DeploymentFailed
               else DeploymentTimedOut)
          \<and> effects (fst (monitor_deployment st)) =
              concat (replicate k [Call ''agentcore_runtime.status'', Sleep 30])
                @ [Call ''agentcore_runtime.status'']
                @ (if reported (st k) = Some ''READY'' then [] else [Call ''cleanup_temp_files''])
          \<and> (Print ''[SUCCESS] Deployment successful!'' \<in> set (fst (monitor_deployment st)))
              = (reported (st k) = Some ''READY''))"
proof (intro conjI allI impI)
  from stop_index_exists [of 59 "\<lambda>i. ends_monitoring (st i)"]
  obtain k where "k \<le> 59" "\<forall>i<k. \<not> ends_monitoring (st i)" "ends_monitoring (st k) \<or> k = 59"
    by blast
  moreover from this(1) have "k < 60" by simp
  ultimately show "\<exists>k<60. (\<forall>i<k. \<not> ends_monitoring (st i)) \<and> (ends_monitoring (st k) \<or> k = 59)"
    by blast
next
  fix k :: nat
  assume k: "k < 60"
    and h: "(\<forall>i<k. \<not> ends_monitoring (st i)) \<and> (ends_monitoring (st k) \<or> k = 59)"
  have a: "\<forall>i<k. \<not> ends_monitoring (st (0 + i))" using h by simp
  have b: "0 + k < (60::nat)" using k by simp
  from monitor_loop_running [where st = st and c = 0 and s = "''CREATING''" and tr = "[]", OF a b]
  obtain X s' where X:
    "monitor_loop st 60 0 0 ''CREATING'' [] = monitor_loop st 60 k k s' X"
    "effects X = concat (replicate k [Call ''agentcore_runtime.status'', Sleep 30])"
    "Print ''[SUCCESS] Deployment successful!'' \<notin> set X"
    "s' \<noteq> ''READY''"
    by auto
  have last_poll: "\<exists>Y ex s''. monitor_loop st 60 k k s' X = (X @ Y, ex, s'')
      \<and> (reported (st k) = Some ''READY'' \<longrightarrow> ex = Break \<and> s'' = ''READY''
            \<and> effects Y = [Call ''agentcore_runtime.status'']
            \<and> Print ''[SUCCESS] Deployment successful!'' \<in> set Y)
      \<and> (reported (st k) \<noteq> Some ''READY'' \<and> reports_failure (st k) \<longrightarrow> ex = Return
            \<and> effects Y = [Call ''agentcore_runtime.status'', Call ''cleanup_temp_files'']
            \<and> Print ''[SUCCESS] Deployment successful!'' \<notin> set Y)
      \<and> (\<not> ends_monitoring (st k) \<longrightarrow> ex = Exhausted \<and> s'' \<noteq> ''READY''
            \<and> effects Y = [Call ''agentcore_runtime.status'']
            \<and> Print ''[SUCCESS] Deployment successful!'' \<notin> set Y)"
  proof (cases "ends_monitoring (st k)")
    case True
    then show ?thesis using k
      by (subst monitor_loop.simps)
         (auto simp: ends_monitoring_def reports_failure_def reported_def Let_def
               split: option.splits sum.splits)
  next
    case False
    with h have k59: "k = 59" by simp
    have e: "monitor_loop st 60 60 c s t = (t, Exhausted, s)" for c s t
      by (subst monitor_loop.simps) simp
    from False show ?thesis using \<open>s' \<noteq> ''READY''\<close> unfolding k59
      by (subst monitor_loop.simps)
         (auto simp: e ends_monitoring_def reports_failure_def reported_def Let_def
               split: option.splits sum.splits)
  qed
  then obtain Y ex s'' where Y: "monitor_loop st 60 k k s' X = (X @ Y, ex, s'')"
    and ready: "reported (st k) = Some ''READY'' \<Longrightarrow> ex = Break \<and> s'' = ''READY''
            \<and> effects Y = [Call ''agentcore_runtime.status'']
            \<and> Print ''[SUCCESS] Deployment successful!'' \<in> set Y"
    and failed: "reported (st k) \<noteq> Some ''READY'' \<and> reports_failure (st k) \<Longrightarrow> ex = Return
            \<and> effects Y = [Call ''agentcore_runtime.status'', Call ''cleanup_temp_files'']
            \<and> Print ''[SUCCESS] Deployment successful!'' \<notin> set Y"
    and timeout: "\<not> ends_monitoring (st k) \<Longrightarrow> ex = Exhausted \<and> s'' \<noteq> ''READY''
            \<and> effects Y = [Call ''agentcore_runtime.status'']
            \<and> Print ''[SUCCESS] Deployment successful!'' \<notin> set Y"
    by blast
  consider (r) "reported (st k) = Some ''READY''"
    | (f) "reported (st k) \<noteq> Some ''READY''" "reports_failure (st k)"
    | (t) "reported (st k) \<noteq> Some ''READY''" "\<not> reports_failure (st k)"
    by blast
  then have all: "snd (monitor_deployment st) =
              (if reported (st k) = Some ''READY'' then DeploymentReady
               else if reports_failure (st k) then DeploymentFailed
               else DeploymentTimedOut)
          \<and> effects (fst (monitor_deployment st)) =
              concat (replicate k [Call ''agentcore_runtime.status'', Sleep 30])
                @ [Call ''agentcore_runtime.status'']
                @ (if reported (st k) = Some ''READY'' then [] else [Call ''cleanup_temp_files''])
          \<and> (Print ''[SUCCESS] Deployment successful!'' \<in> set (fst (monitor_deployment st)))
              = (reported (st k) = Some ''READY'')"
  proof cases
    case r
    with ready X Y show ?thesis by (simp add: monitor_deployment_def)
  next
    case f
    with failed X Y show ?thesis by (simp add: monitor_deployment_def)
  next
    case t
    then have "\<not> ends_monitoring (st k)" by (simp add: ends_monitoring_def)
    with timeout t X Y show ?thesis by (simp add: monitor_deployment_def)
  qed
  from all show "snd (monitor_deployment st) =
              (if reported (st k) = Some ''READY'' then DeploymentReady
               else if reports_failure (st k) then DeploymentFailed
               else DeploymentTimedOut)" by blast
  from all show "effects (fst (monitor_deployment st)) =
              concat (replicate k [Call ''agentcore_runtime.status'', Sleep 30])
                @ [Call ''agentcore_runtime.status'']
                @ (if reported (st k) = Some ''READY'' then [] else [Call ''cleanup_temp_files''])"
    by blast
  from all show "(Print ''[SUCCESS] Deployment successful!'' \<in> set (fst (monitor_deployment st)))
              = (reported (st k) = Some ''READY'')" by blast
qed

theorem monitor_deployment_polling_witness:
  "snd (monitor_deployment
          (\<lambda>n. if n = 0 then Inl ''throttled''
               else if n = 1 then Inr (Some ''CREATING'') else Inr (Some ''READY'')))
     = DeploymentReady
   \<and> effects (fst (monitor_deployment
          (\<lambda>n. if n = 0 then Inl ''throttled''
               else if n = 1 then Inr (Some ''CREATING'') else Inr (Some ''READY''))))
     = [Call ''agentcore_runtime.status'', Sleep 30,
        Call ''agentcore_runtime.status'', Sleep 30, Call ''agentcore_runtime.status'']"
proof -
  let ?st = "\<lambda>n::nat. if n = 0 then Inl ''throttled''
               else if n = 1 then Inr (Some ''CREATING'') else (Inr (Some ''READY'') :: exception + string option)"
  have k: "(2::nat) < 60" by simp
  have h: "(\<forall>i<2. \<not> ends_monitoring (?st i)) \<and> (ends_monitoring (?st 2) \<or> (2::nat) = 59)"
    by (simp add: ends_monitoring_def reports_failure_def reported_def)
  have r: "replicate 2 x = [x, x]" for x :: "event list"
    by (simp add: numeral_2_eq_2)
  from monitor_deployment_polling [of ?st, THEN conjunct2, rule_format, OF k h]
  show ?thesis
    by (simp add: reported_def r)
qed

subsection \<open>Gateway creation\<close>

declare gateway_wait_loop.simps [simp del]

lemma gateway_wait_loop_step:
  assumes "\<not> observes_ready (g c)" "\<not> unreadable (g c)" "w < m"
  shows "\<exists>X. gateway_wait_loop g m w c tr = gateway_wait_loop g m (w + 5) (Suc c) (tr @ X)
           \<and> effects X = [Call ''get-gateway'', Sleep 5]
           \<and> Print ''Gateway creation timeout, but continuing...'' \<notin> set X"
proof (cases "g c")
  case (NonZero err)
  have "gateway_wait_loop g m w c tr = gateway_wait_loop g m (w + 5) (Suc c)
          (tr @ [Call ''get-gateway'', Sleep 5])"
    using NonZero assms(3) by (subst gateway_wait_loop.simps) simp
  then show ?thesis
    by (intro exI [of _ "[Call ''get-gateway'', Sleep 5]"]) simp
next
  case (Zero r)
  with assms(2) obtain s where r: "r = Inr s"
    by (cases r) (auto simp: unreadable_def)
  with assms(1) Zero have s: "s \<noteq> Some ''READY''"
    by (simp add: observes_ready_def)
  have "gateway_wait_loop g m w c tr = gateway_wait_loop g m (w + 5) (Suc c)
          (tr @ [Call ''get-gateway'', Print (''   Gateway status: '' @ str_optional s), Sleep 5])"
    using Zero r s assms(3) by (subst gateway_wait_loop.simps) simp
  then show ?thesis
    by (intro exI [of _ "[Call ''get-gateway'',
                          Print (''   Gateway status: '' @ str_optional s), Sleep 5]"]) simp
qed

lemma gateway_wait_loop_running:
  assumes "\<forall>i<j. \<not> observes_ready (g (c + i)) \<and> \<not> unreadable (g (c + i))" "w + 5 * j \<le> m + 4"
  shows "\<exists>X. gateway_wait_loop g m w c tr = gateway_wait_loop g m (w + 5 * j) (c + j) (tr @ X)
           \<and> effects X = concat (replicate j [Call ''get-gateway'', Sleep 5])
           \<and> Print ''Gateway creation timeout, but continuing...'' \<notin> set X"
  using assms
proof (induction j arbitrary: w c tr)
  case 0
  show ?case by (intro exI [of _ "[]"]) simp
next
  case (Suc j)
  have nr: "\<not> observes_ready (g c)" "\<not> unreadable (g c)" using Suc.prems(1) by force+
  have wm: "w < m" using Suc.prems(2) by simp
  from gateway_wait_loop_step [where g = g and c = c and tr = tr, OF nr wm]
  obtain X where X: "gateway_wait_loop g m w c tr = gateway_wait_loop g m (w + 5) (Suc c) (tr @ X)"
    "effects X = [Call ''get-gateway'', Sleep 5]"
    "Print ''Gateway creation timeout, but continuing...'' \<notin> set X"
    by blast
  have hyp: "\<forall>i<j. \<not> observes_ready (g (Suc c + i)) \<and> \<not> unreadable (g (Suc c + i))"
    using Suc.prems(1) by (metis Suc_less_eq add_Suc_shift)
  have "w + 5 + 5 * j \<le> m + 4" using Suc.prems(2) by simp
  from Suc.IH [where c = "Suc c" and tr = "tr @ X", OF hyp this]
  obtain Y where Y:
    "gateway_wait_loop g m (w + 5) (Suc c) (tr @ X)
       = gateway_wait_loop g m (w + 5 + 5 * j) (Suc c + j) ((tr @ X) @ Y)"
    "effects Y = concat (replicate j [Call ''get-gateway'', Sleep 5])"
    "Print ''Gateway creation timeout, but continuing...'' \<notin> set Y"
    by blast
  show ?case
    using X Y by (intro exI [of _ "X @ Y"]) (simp add: add.assoc)
qed

lemma create_gateway_target_calls:
  "Call ''create-gateway-target'' \<in> set (fst (create_gateway_target env aws_region gateway_id))"
  by (simp add: create_gateway_target_def Let_def
           split: cli.splits sum.splits permission.splits)

lemma create_gateway_target_no_timeout:
  "Print ''Gateway creation timeout, but continuing...''
     \<notin> set (fst (create_gateway_target env aws_region gateway_id))"
  by (simp add: create_gateway_target_def Let_def
           split: cli.splits sum.splits permission.splits)

lemma create_and_wait_polls:
  assumes c: "create_gateway_cmd env = Zero (Inr gid)"
    and k: "k \<le> 12"
    and run: "\<forall>i<k. \<not> observes_ready (get_gateway_cmd env i) \<and> \<not> unreadable (get_gateway_cmd env i)"
  shows "\<exists>X. gateway_wait_loop (get_gateway_cmd env) 60 0 0
                [Call ''create-gateway'',
                 Print (''Gateway created with CUSTOM_JWT: '' @ gid),
                 Print (''Gateway URL: https://'' @ gid
                        @ ''.gateway.bedrock-agentcore.'' @ aws_region @ ''.amazonaws.com''),
                 Print ''Waiting for gateway to be ready...'']
              = gateway_wait_loop (get_gateway_cmd env) 60 (5 * k) k X
            \<and> effects X = Call ''create-gateway'' # concat (replicate k [Call ''get-gateway'', Sleep 5])
            \<and> Print ''Gateway creation timeout, but continuing...'' \<notin> set X"
proof -
  let ?tr0 = "[Call ''create-gateway'',
                 Print (''Gateway created with CUSTOM_JWT: '' @ gid),
                 Print (''Gateway URL: https://'' @ gid
                        @ ''.gateway.bedrock-agentcore.'' @ aws_region @ ''.amazonaws.com''),
                 Print ''Waiting for gateway to be ready...'']"
  have a: "\<forall>i<k. \<not> observes_ready (get_gateway_cmd env (0 + i))
                 \<and> \<not> unreadable (get_gateway_cmd env (0 + i))"
    using run by simp
  have b: "0 + 5 * k \<le> (60::nat) + 4" using k by simp
  from gateway_wait_loop_running [where g = "get_gateway_cmd env" and c = 0 and tr = ?tr0, OF a b]
  obtain X where X: "gateway_wait_loop (get_gateway_cmd env) 60 0 0 ?tr0
       = gateway_wait_loop (get_gateway_cmd env) 60 (0 + 5 * k) (0 + k) (?tr0 @ X)"
    "effects X = concat (replicate k [Call ''get-gateway'', Sleep 5])"
    "Print ''Gateway creation timeout, but continuing...'' \<notin> set X"
    by blast
  show ?thesis
    using X by (intro exI [of _ "?tr0 @ X"]) simp
qed

text \<open>
  C6. \<open>create_gateway\<close> waits for the gateway to be READY by polling its status every
  5 seconds for at most 60 seconds (12 polls). With \<open>k\<close> the number of polls that
  neither observe READY nor fail to be read before the first that does: if poll \<open>k < 12\<close>
  observes READY the wait ends there without a warning; if all 12 polls pass without READY
  (\<open>k = 12\<close>) the timeout warning is printed; in both cases the function goes on to
  create the gateway target. A non-zero return code of the create-gateway command ends the
  process with exit code 1 before any poll; so does a poll whose output cannot be read.
\<close>

theorem create_gateway_wait:
  "(\<forall>err. create_gateway_cmd env = NonZero err \<longrightarrow>
      snd (create_gateway env region) = Exited 1
      \<and> effects (fst (create_gateway env region)) = [Call ''create-gateway''])
   \<and> (\<forall>gid k. create_gateway_cmd env = Zero (Inr gid) \<and> k \<le> 12
         \<and> (\<forall>i<k. \<not> observes_ready (get_gateway_cmd env i) \<and> \<not> unreadable (get_gateway_cmd env i))
         \<and> (k < 12 \<longrightarrow> observes_ready (get_gateway_cmd env k)) \<longrightarrow>
      effects (fst (create_gateway env region))
        = Call ''create-gateway'' # concat (replicate k [Call ''get-gateway'', Sleep 5])
            @ (if k < 12 then [Call ''get-gateway''] else [])
            @ effects (fst (create_gateway_target env region gid))
      \<and> Call ''create-gateway-target'' \<in> set (fst (create_gateway_target env region gid))
      \<and> snd (create_gateway env region) = snd (create_gateway_target env region gid)
      \<and> (Print ''Gateway creation timeout, but continuing...''
            \<in> set (fst (create_gateway env region))) = (k = 12))
   \<and> (\<forall>gid k. create_gateway_cmd env = Zero (Inr gid) \<and> k < 12
         \<and> (\<forall>i<k. \<not> observes_ready (get_gateway_cmd env i) \<and> \<not> unreadable (get_gateway_cmd env i))
         \<and> unreadable (get_gateway_cmd env k) \<longrightarrow>
      snd (create_gateway env region) = Exited 1
      \<and> effects (fst (create_gateway env region))
        = Call ''create-gateway'' # concat (replicate k [Call ''get-gateway'', Sleep 5])
            @ [Call ''get-gateway''])"
proof (intro conjI allI impI)
  fix err assume "create_gateway_cmd env = NonZero err"
  then show "snd (create_gateway env region) = Exited 1"
    and "effects (fst (create_gateway env region)) = [Call ''create-gateway'']"
    by (simp_all add: create_gateway_def create_and_wait_def)
next
  fix gid k
  assume h: "create_gateway_cmd env = Zero (Inr gid) \<and> k \<le> 12
         \<and> (\<forall>i<k. \<not> observes_ready (get_gateway_cmd env i) \<and> \<not> unreadable (get_gateway_cmd env i))
         \<and> (k < 12 \<longrightarrow> observes_ready (get_gateway_cmd env k))"
  then have c: "create_gateway_cmd env = Zero (Inr gid)" and k: "k \<le> 12"
    and run: "\<forall>i<k. \<not> observes_ready (get_gateway_cmd env i) \<and> \<not> unreadable (get_gateway_cmd env i)"
    and last: "k < 12 \<Longrightarrow> observes_ready (get_gateway_cmd env k)"
    by blast+
  from create_and_wait_polls [OF c k run, of region]
  obtain X where X: "gateway_wait_loop (get_gateway_cmd env) 60 0 0
                [Call ''create-gateway'',
                 Print (''Gateway created with CUSTOM_JWT: '' @ gid),
                 Print (''Gateway URL: https://'' @ gid
                        @ ''.gateway.bedrock-agentcore.'' @ region @ ''.amazonaws.com''),
                 Print ''Waiting for gateway to be ready...'']
              = gateway_wait_loop (get_gateway_cmd env) 60 (5 * k) k X"
    "effects X = Call ''create-gateway'' # concat (replicate k [Call ''get-gateway'', Sleep 5])"
    "Print ''Gateway creation timeout, but continuing...'' \<notin> set X"
    by blast
  have w: "create_and_wait env region =
             (if k < 12 then (X @ [Call ''get-gateway'', Print ''Gateway is ready''], Inr gid)
              else (X @ [Print ''Gateway creation timeout, but continuing...''], Inr gid))"
  proof (cases "k < 12")
    case True
    have "gateway_wait_loop (get_gateway_cmd env) 60 (5 * k) k X
            = (X @ [Call ''get-gateway'', Print ''Gateway is ready''], Inr (5 * k))"
      using True last [OF True]
      by (subst gateway_wait_loop.simps) (simp add: observes_ready_def)
    with X(1) c True show ?thesis
      by (simp add: create_and_wait_def)
  next
    case False
    with k have k12: "k = 12" by simp
    have "gateway_wait_loop (get_gateway_cmd env) 60 (5 * k) k X = (X, Inr 60)"
      unfolding k12 by (subst gateway_wait_loop.simps) simp
    with X(1) c False show ?thesis
      by (simp add: create_and_wait_def)
  qed
  obtain T out where T: "create_gateway_target env region gid = (T, out)"
    by (cases "create_gateway_target env region gid")
  have nt: "Print ''Gateway creation timeout, but continuing...'' \<notin> set T"
    using create_gateway_target_no_timeout [of env region gid] T by simp
  show "effects (fst (create_gateway env region))
        = Call ''create-gateway'' # concat (replicate k [Call ''get-gateway'', Sleep 5])
            @ (if k < 12 then [Call ''get-gateway''] else [])
            @ effects (fst (create_gateway_target env region gid))"
    using w X(2) T by (simp add: create_gateway_def)
  show "Call ''create-gateway-target'' \<in> set (fst (create_gateway_target env region gid))"
    by (rule create_gateway_target_calls)
  show "snd (create_gateway env region) = snd (create_gateway_target env region gid)"
    using w T by (simp add: create_gateway_def)
  show "(Print ''Gateway creation timeout, but continuing...''
            \<in> set (fst (create_gateway env region))) = (k = 12)"
    using w X(3) T nt k by (auto simp: create_gateway_def)
next
  fix gid k
  assume h: "create_gateway_cmd env = Zero (Inr gid) \<and> k < 12
         \<and> (\<forall>i<k. \<not> observes_ready (get_gateway_cmd env i) \<and> \<not> unreadable (get_gateway_cmd env i))
         \<and> unreadable (get_gateway_cmd env k)"
  then have c: "create_gateway_cmd env = Zero (Inr gid)" and k: "k \<le> 12" and k': "k < 12"
    and run: "\<forall>i<k. \<not> observes_ready (get_gateway_cmd env i) \<and> \<not> unreadable (get_gateway_cmd env i)"
    and last: "unreadable (get_gateway_cmd env k)"
    by auto
  from create_and_wait_polls [OF c k run, of region]
  obtain X where X: "gateway_wait_loop (get_gateway_cmd env) 60 0 0
                [Call ''create-gateway'',
                 Print (''Gateway created with CUSTOM_JWT: '' @ gid),
                 Print (''Gateway URL: https://'' @ gid
                        @ ''.gateway.bedrock-agentcore.'' @ region @ ''.amazonaws.com''),
                 Print ''Waiting for gateway to be ready...'']
              = gateway_wait_loop (get_gateway_cmd env) 60 (5 * k) k X"
    "effects X = Call ''create-gateway'' # concat (replicate k [Call ''get-gateway'', Sleep 5])"
    by blast
  from last obtain e where e: "get_gateway_cmd env k = Zero (Inl e)"
    by (auto simp: unreadable_def split: cli.splits sum.splits)
  have "gateway_wait_loop (get_gateway_cmd env) 60 (5 * k) k X = (X @ [Call ''get-gateway''], Inl e)"
    using k' e by (subst gateway_wait_loop.simps) simp
  with X(1) c have w: "create_and_wait env region
      = (X @ [Call ''get-gateway'', Print (''Error creating gateway: '' @ e)], Inl 1)"
    by (simp add: create_and_wait_def)
  show "snd (create_gateway env region) = Exited 1"
    using w by (simp add: create_gateway_def)
  show "effects (fst (create_gateway env region))
        = Call ''create-gateway'' # concat (replicate k [Call ''get-gateway'', Sleep 5])
            @ [Call ''get-gateway'']"
    using w X(2) by (simp add: create_gateway_def)
qed

theorem create_gateway_wait_witness:
  "snd (create_gateway
          \<lparr>create_gateway_cmd = Zero (Inr ''gw-1''),
           get_gateway_cmd = (\<lambda>n. Zero (Inr (Some ''CREATING''))),
           create_gateway_target_cmd = Zero (Inr ()),
           sts_account = Inr ''123456789012'',
           add_permission = Added\<rparr> ''us-east-1'')
     = Returned (''arn:aws:bedrock-agentcore:us-east-1:123456789012:gateway/gw-1'', ''gw-1'')
   \<and> Print ''Gateway creation timeout, but continuing...''
       \<in> set (fst (create_gateway
          \<lparr>create_gateway_cmd = Zero (Inr ''gw-1''),
           get_gateway_cmd = (\<lambda>n. Zero (Inr (Some ''CREATING''))),
           create_gateway_target_cmd = Zero (Inr ()),
           sts_account = Inr ''123456789012'',
           add_permission = Added\<rparr> ''us-east-1''))
   \<and> length (filter (\<lambda>e. e = Sleep 5) (fst (create_gateway
          \<lparr>create_gateway_cmd = Zero (Inr ''gw-1''),
           get_gateway_cmd = (\<lambda>n. Zero (Inr (Some ''CREATING''))),
           create_gateway_target_cmd = Zero (Inr ()),
           sts_account = Inr ''123456789012'',
           add_permission = Added\<rparr> ''us-east-1''))) = 12"
proof -
  let ?env = "\<lparr>create_gateway_cmd = Zero (Inr ''gw-1''),
           get_gateway_cmd = (\<lambda>n. Zero (Inr (Some ''CREATING''))),
           create_gateway_target_cmd = Zero (Inr ()),
           sts_account = Inr ''123456789012'',
           add_permission = Added\<rparr>"
  have h: "create_gateway_cmd ?env = Zero (Inr ''gw-1'') \<and> (12::nat) \<le> 12
         \<and> (\<forall>i<12. \<not> observes_ready (get_gateway_cmd ?env i) \<and> \<not> unreadable (get_gateway_cmd ?env i))
         \<and> ((12::nat) < 12 \<longrightarrow> observes_ready (get_gateway_cmd ?env 12))"
    by (simp add: observes_ready_def unreadable_def)
  note t = create_gateway_wait [of ?env "''us-east-1''", THEN conjunct2, THEN conjunct1,
      rule_format, OF h]
  have tgt: "create_gateway_target ?env ''us-east-1'' ''gw-1'' =
     ([Call ''write target_file'', Call ''write cred_file'', Call ''create-gateway-target'',
       Call ''sts.get_caller_identity'', Print ''Gateway target created successfully!'',
       Print ''Gateway ARN: arn:aws:bedrock-agentcore:us-east-1:123456789012:gateway/gw-1'',
       Print ''Gateway ID: gw-1'',
       Print ''Gateway URL: https://gw-1.gateway.bedrock-agentcore.us-east-1.amazonaws.com'',
       Print ''MCP URL: https://gw-1.gateway.bedrock-agentcore.us-east-1.amazonaws.com/mcp'',
       Print ''Adding Lambda permission for Gateway...'', Call ''lambda.add_permission'',
       Print ''Lambda permission added'', Call ''write gateway_config.json'',
       Print ''Gateway config saved to gateway_config.json'',
       Call ''unlink target_file'', Call ''unlink cred_file''],
      Returned (''arn:aws:bedrock-agentcore:us-east-1:123456789012:gateway/gw-1'', ''gw-1''))"
    by (simp add: create_gateway_target_def Let_def)
  have len: "length (filter (\<lambda>e. e = Sleep 5) tr) = length (filter (\<lambda>e. e = Sleep 5) (effects tr))"
    for tr
    by (induction tr) (auto simp: effects_def)
  have r: "replicate 12 x = [x, x, x, x, x, x, x, x, x, x, x, x]" for x :: "event list"
    by (simp add: eval_nat_numeral)
  from t have a: "snd (create_gateway ?env ''us-east-1'')
     = Returned (''arn:aws:bedrock-agentcore:us-east-1:123456789012:gateway/gw-1'', ''gw-1'')"
    by (simp add: tgt)
  from t have b: "Print ''Gateway creation timeout, but continuing...''
       \<in> set (fst (create_gateway ?env ''us-east-1''))"
    by simp
  from t have "effects (fst (create_gateway ?env ''us-east-1''))
        = Call ''create-gateway'' # concat (replicate 12 [Call ''get-gateway'', Sleep 5])
            @ effects (fst (create_gateway_target ?env ''us-east-1'' ''gw-1''))"
    by simp
  then have c: "length (filter (\<lambda>e. e = Sleep 5) (fst (create_gateway ?env ''us-east-1''))) = 12"
    by (simp add: len [of "fst (create_gateway ?env ''us-east-1'')"] tgt r)
  from a b c show ?thesis by blast
qed

subsection \<open>Glue crawlers\<close>

lemma str_lower_states:
  "str_lower ''RUNNING'' = ''running''" "str_lower ''STOPPING'' = ''stopping''"
  by code_simp+

lemma crawler_wait_loop_progress:
  assumes "in_progress (reported_state env name c)"
  shows "crawler_wait_loop env name c tr
           = crawler_wait_loop env name (Suc c)
               (tr @ progress_events name (reported_state env name c))"
  using assms
  by (subst crawler_wait_loop.simps)
     (auto simp: in_progress_def reported_state_def progress_events_def str_lower_states
           split: sum.splits)

lemma crawler_wait_loop_running:
  assumes "\<forall>i<j. in_progress (reported_state env name (c + i))"
  shows "crawler_wait_loop env name c tr
           = crawler_wait_loop env name (c + j)
               (tr @ concat (map (\<lambda>i. progress_events name (reported_state env name i))
                               [c..<c + j]))"
  using assms
proof (induction j arbitrary: c tr)
  case 0
  show ?case by simp
next
  case (Suc j)
  have p: "in_progress (reported_state env name c)" using Suc.prems by force
  have hyp: "\<forall>i<j. in_progress (reported_state env name (Suc c + i))"
    using Suc.prems by (metis Suc_less_eq add_Suc_shift)
  have u: "[c..<c + Suc j] = c # [Suc c..<Suc c + j]"
    by (simp add: upt_conv_Cons)
  show ?case
    unfolding crawler_wait_loop_progress [OF p] Suc.IH [OF hyp] u by simp
qed

lemma crawler_wait_loop_returns:
  assumes "crawler_wait_loop env name c tr = Some y"
  shows "\<exists>i. \<not> in_progress (reported_state env name (c + i))"
  using assms
proof (induction env name c tr y rule: crawler_wait_loop.raw_induct [rotated 1, consumes 1])
  case (1 f env name c tr y)
  show ?case
  proof (cases "in_progress (reported_state env name c)")
    case True
    then have "\<exists>tr'. f env name (Suc c) tr' = Some y"
      using 1(2)
      by (auto simp: in_progress_def reported_state_def split: sum.splits if_splits)
    then obtain tr' where "f env name (Suc c) tr' = Some y" by blast
    from 1(1) [OF this] obtain i where "\<not> in_progress (reported_state env name (Suc c + i))"
      by blast
    then show ?thesis by (intro exI [of _ "Suc i"]) simp
  next
    case False
    then show ?thesis by (intro exI [of _ 0]) simp
  qed
qed

lemma crawler_wait_loop_never_returns:
  assumes "\<forall>i. in_progress (reported_state env name (c + i))"
  shows "crawler_wait_loop env name c tr = None"
proof (cases "crawler_wait_loop env name c tr")
  case None
  then show ?thesis .
next
  case (Some y)
  from crawler_wait_loop_returns [OF Some] assms show ?thesis by blast
qed

lemma crawler_wait_loop_ends:
  assumes run: "\<forall>i<k. in_progress (reported_state env name (c + i))"
    and fin: "ends_wait (reported_state env name (c + k))"
  shows "crawler_wait_loop env name c tr =
           Some (tr @ concat (map (\<lambda>i. progress_events name (reported_state env name i))
                                [c..<c + k])
                    @ final_events name (reported_state env name (c + k)),
                 Suc (c + k), Inr ())"
proof -
  from fin obtain s where s: "reported_state env name (c + k) = Some s"
    "s \<noteq> ''RUNNING''" "s \<noteq> ''STOPPING''"
    by (auto simp: ends_wait_def split: option.splits)
  then have g: "get_crawler env name (c + k) = Inr s"
    by (auto simp: reported_state_def split: sum.splits)
  show ?thesis
    unfolding crawler_wait_loop_running [OF run] s(1)
    using g s(2,3)
    by (subst crawler_wait_loop.simps) (simp add: final_events_def)
qed

lemma list_all_upt_shift:
  "list_all P [c..<c + k] = (\<forall>i<k. P (c + i))"
proof
  assume a: "list_all P [c..<c + k]"
  show "\<forall>i<k. P (c + i)"
  proof (intro allI impI)
    fix i assume "i < k"
    then have "c + i \<in> set [c..<c + k]" by simp
    with a show "P (c + i)" by (simp add: list_all_iff)
  qed
next
  assume a: "\<forall>i<k. P (c + i)"
  have "P j" if "j \<in> set [c..<c + k]" for j
  proof -
    from that have "c \<le> j" "j - c < k" by auto
    with a have "P (c + (j - c))" by blast
    with \<open>c \<le> j\<close> show ?thesis by simp
  qed
  then show "list_all P [c..<c + k]" by (simp add: list_all_iff)
qed

text \<open>The loop over the crawlers, on a course that ends for each of them.\<close>

lemma wait_for_crawlers_ends:
  "waits_end env course c \<Longrightarrow>
   wait_for_crawlers env (map fst course) c tr = Some (tr @ wait_events env course c, Inr ())"
proof (induction course arbitrary: c tr)
  case Nil
  show ?case by simp
next
  case (Cons a course)
  obtain name k where a: "a = (name, k)" by (cases a)
  from Cons.prems a have run: "\<forall>i<k. in_progress (reported_state env name (c + i))"
    and fin: "ends_wait (reported_state env name (c + k))"
    and rest: "waits_end env course (Suc (c + k))"
    by (simp_all add: list_all_upt_shift)
  show ?case
    unfolding a using crawler_wait_loop_ends [OF run fin, of tr] Cons.IH [OF rest]
    by simp
qed

text \<open>The loop over the crawlers, on a course that ends for the first crawlers and then
  meets one that stays running or stopping.\<close>

lemma wait_for_crawlers_never_returns:
  "waits_end env course c \<Longrightarrow>
   \<forall>i. in_progress (reported_state env name (calls_after course c + i)) \<Longrightarrow>
   wait_for_crawlers env (map fst course @ name # rest) c tr = None"
proof (induction course arbitrary: c tr)
  case Nil
  then have "crawler_wait_loop env name c tr = None"
    using crawler_wait_loop_never_returns [of env name c tr] by simp
  then show ?case by simp
next
  case (Cons a course)
  obtain n k where a: "a = (n, k)" by (cases a)
  from Cons.prems(1) a have run: "\<forall>i<k. in_progress (reported_state env n (c + i))"
    and fin: "ends_wait (reported_state env n (c + k))"
    and more: "waits_end env course (Suc (c + k))"
    by (simp_all add: list_all_upt_shift)
  from Cons.prems(2) a
  have stay: "\<forall>i. in_progress (reported_state env name (calls_after course (Suc (c + k)) + i))"
    by simp
  show ?case
    unfolding a using crawler_wait_loop_ends [OF run fin, of tr] Cons.IH [OF more stay]
    by simp
qed

text \<open>
  C5. \<open>run_glue_crawlers\<close> with \<open>wait_for_completion=True\<close> starts the crawlers and then
  waits for each crawler of the list in turn. When, for each crawler, a number of polls
  report RUNNING or STOPPING and the next poll reports another state, the run is: the
  start of the crawlers, the waiting line, and for each crawler one call, progress line
  and 10-second sleep per poll that reported RUNNING or STOPPING, then the last call and
  the line that the crawler completed exactly when that poll reported READY, the line with
  its state as a warning otherwise. When the polls of some crawler report RUNNING or
  STOPPING for ever, after the waits of the crawlers before it have ended, the function
  never returns.
\<close>

theorem run_glue_crawlers_waits:
  "(waits_end env course 0 \<longrightarrow>
      run_glue_crawlers env (map fst course) True
        = Some (start_crawlers env (map fst course)
                  @ [Print (CHR 0x0A # ''Waiting for crawlers to complete...'')]
                  @ wait_events env course 0,
                Inr ()))
   \<and> (waits_end env course 0
        \<and> (\<forall>i. in_progress (reported_state env name (calls_after course 0 + i))) \<longrightarrow>
      run_glue_crawlers env (map fst course @ name # rest) True = None)"
proof (intro conjI impI)
  assume "waits_end env course 0"
  from wait_for_crawlers_ends [OF this]
  show "run_glue_crawlers env (map fst course) True
        = Some (start_crawlers env (map fst course)
                  @ [Print (CHR 0x0A # ''Waiting for crawlers to complete...'')]
                  @ wait_events env course 0,
                Inr ())"
    by (simp add: run_glue_crawlers_def Let_def)
next
  assume h: "waits_end env course 0
        \<and> (\<forall>i. in_progress (reported_state env name (calls_after course 0 + i)))"
  then have e: "waits_end env course 0"
    and s: "\<forall>i. in_progress (reported_state env name (calls_after course 0 + i))"
    by blast+
  from wait_for_crawlers_never_returns [OF e s]
  show "run_glue_crawlers env (map fst course @ name # rest) True = None"
    by (simp add: run_glue_crawlers_def Let_def)
qed

theorem run_glue_crawlers_waits_witness:
  "run_glue_crawlers
     \<lparr>start_crawler = (\<lambda>n. if n = ''c2'' then CrawlerRunning else Started),
      get_crawler = (\<lambda>n i. Inr (if n = ''c1'' then (if i = 0 then ''RUNNING'' else ''READY'')
                                  else ''FAILED''))\<rparr>
     [''c1'', ''c2''] True
   = Some ([Print ''Starting crawler: c1'', Call ''glue.start_crawler'',
            Print ''  Crawler c1 started'',
            Print ''Starting crawler: c2'', Call ''glue.start_crawler'',
            Print ''  Crawler c2 already running'',
            Print (CHR 0x0A # ''Waiting for crawlers to complete...''),
            Call ''glue.get_crawler'', Print ''  c1 is running...'', Sleep 10,
            Call ''glue.get_crawler'', Print ''  c1 completed'',
            Call ''glue.get_crawler'', Print ''  c2 state: FAILED''], Inr ())
   \<and> run_glue_crawlers
     \<lparr>start_crawler = (\<lambda>n. Started),
      get_crawler = (\<lambda>n i. Inr (if n = ''c1'' then ''READY'' else ''STOPPING''))\<rparr>
     [''c1'', ''c2'', ''c3''] True = None"
proof -
  let ?e1 = "\<lparr>start_crawler = (\<lambda>n. if n = ''c2'' then CrawlerRunning else Started),
      get_crawler = (\<lambda>n i. Inr (if n = ''c1'' then (if i = 0 then ''RUNNING'' else ''READY'')
                                  else ''FAILED''))\<rparr>"
  let ?e2 = "\<lparr>start_crawler = (\<lambda>n. Started),
      get_crawler = (\<lambda>n i. Inr (if n = ''c1'' then ''READY'' else ''STOPPING''))\<rparr>"
  have u: "[0..<Suc 0] = [0]" by simp
  have h1: "waits_end ?e1 [(''c1'', 1), (''c2'', 0)] 0"
    by (simp add: u in_progress_def reported_state_def ends_wait_def)
  have h2: "waits_end ?e2 [(''c1'', 0)] 0
        \<and> (\<forall>i. in_progress (reported_state ?e2 ''c2'' (calls_after [(''c1'', 0)] 0 + i)))"
    by (simp add: in_progress_def reported_state_def ends_wait_def)
  note t1 = run_glue_crawlers_waits [of ?e1 "[(''c1'', 1), (''c2'', 0)]",
      THEN conjunct1, THEN mp, OF h1]
  note t2 = run_glue_crawlers_waits [of ?e2 "[(''c1'', 0)]" "''c2''" "[''c3'']",
      THEN conjunct2, THEN mp, OF h2]
  from t1 have a: "run_glue_crawlers ?e1 [''c1'', ''c2''] True
   = Some ([Print ''Starting crawler: c1'', Call ''glue.start_crawler'',
            Print ''  Crawler c1 started'',
            Print ''Starting crawler: c2'', Call ''glue.start_crawler'',
            Print ''  Crawler c2 already running'',
            Print (CHR 0x0A # ''Waiting for crawlers to complete...''),
            Call ''glue.get_crawler'', Print ''  c1 is running...'', Sleep 10,
            Call ''glue.get_crawler'', Print ''  c1 completed'',
            Call ''glue.get_crawler'', Print ''  c2 state: FAILED''], Inr ())"
    by (simp add: u progress_events_def final_events_def reported_state_def)
  from t2 have b: "run_glue_crawlers ?e2 [''c1'', ''c2'', ''c3''] True = None"
    by simp
  from a b show ?thesis by blast
qed

subsection \<open>Gateway access token cache\<close>

text \<open>
  C10. \<open>get_gateway_access_token\<close> returns the cached token without an HTTP request and
  without changing the cache whenever a (non-empty) token is cached whose expiry was set
  by a fetch at a time \<open>t0\<close> of the clock (seconds since the epoch, not negative) and
  less than 50 minutes have passed since \<open>t0\<close>. A fetch that succeeds, whatever else
  the answer holds, caches the token and sets the expiry to the time read after the
  answer plus \<open>50 * 60\<close> seconds. A fetch that fails, by missing configuration, by an
  HTTP error or by a malformed answer, returns \<open>None\<close> and leaves the cached token and
  the expiry as they were.
\<close>

theorem get_gateway_access_token_cache:
  "(\<forall>t0. truthy (access_token_cache s) \<and> token_expiry s = Some (t0 + 50 * 60) \<and> 0 \<le> t0
          \<and> time_at_test env - t0 < 50 * 60 \<longrightarrow>
       get_gateway_access_token env s = ([], access_token_cache s, s)
       \<and> no_request (fst (get_gateway_access_token env s)))
   \<and> (\<forall>response token_data token.
          \<not> cache_valid env s \<and> configured env \<and> requests_post env = Inr response
          \<and> \<not> (400 \<le> status_code response \<and> status_code response < 600)
          \<and> json_body response = Inr token_data
          \<and> py_getitem token_data ''access_token'' = Inr token \<longrightarrow>
       get_gateway_access_token env s =
         ([Call ''requests.post''], token,
          \<lparr>access_token_cache = token,
           token_expiry = Some (time_after_fetch env + 50 * 60)\<rparr>))
   \<and> (\<not> cache_valid env s
        \<and> (\<not> configured env \<or> http_error env \<or> malformed_response env) \<longrightarrow>
       fst (snd (get_gateway_access_token env s)) = PNone
       \<and> snd (snd (get_gateway_access_token env s)) = s)"
proof (intro conjI allI impI)
  fix t0
  assume h: "truthy (access_token_cache s) \<and> token_expiry s = Some (t0 + 50 * 60) \<and> 0 \<le> t0
          \<and> time_at_test env - t0 < 50 * 60"
  then have v: "cache_valid env s"
    by (auto simp: cache_valid_def)
  then show "get_gateway_access_token env s = ([], access_token_cache s, s)"
    by (simp add: get_gateway_access_token_def)
  then show "no_request (fst (get_gateway_access_token env s))"
    by (simp add: no_request_def)
next
  fix response token_data token
  assume "\<not> cache_valid env s \<and> configured env \<and> requests_post env = Inr response
          \<and> \<not> (400 \<le> status_code response \<and> status_code response < 600)
          \<and> json_body response = Inr token_data
          \<and> py_getitem token_data ''access_token'' = Inr token"
  then show "get_gateway_access_token env s =
         ([Call ''requests.post''], token,
          \<lparr>access_token_cache = token,
           token_expiry = Some (time_after_fetch env + 50 * 60)\<rparr>)"
    by (auto simp: get_gateway_access_token_def configured_def raise_for_status_def)
next
  assume h: "\<not> cache_valid env s
        \<and> (\<not> configured env \<or> http_error env \<or> malformed_response env)"
  have m: "py_getitem token_data ''access_token'' = Inr token \<Longrightarrow>
           (case token_data of PDict kvs \<Rightarrow> map_of kvs ''access_token'' = None | _ \<Rightarrow> True)
           \<Longrightarrow> False" for token_data token
    by (cases token_data) (auto split: option.splits)
  from h show "fst (snd (get_gateway_access_token env s)) = PNone"
    by (auto simp: get_gateway_access_token_def configured_def http_error_def
          malformed_response_def raise_for_status_def
          split: sum.splits dest: m)
  from h show "snd (snd (get_gateway_access_token env s)) = s"
    by (auto simp: get_gateway_access_token_def configured_def http_error_def
          malformed_response_def raise_for_status_def
          split: sum.splits dest: m)
qed

theorem get_gateway_access_token_cache_witness:
  "get_gateway_access_token
     \<lparr>GATEWAY_TOKEN_URL = Some ''https://auth.example/oauth2/token'',
      GATEWAY_COGNITO_CLIENT_ID = Some ''client'', GATEWAY_COGNITO_CLIENT_SECRET = Some ''secret'',
      requests_post = Inr \<lparr>status_code = 200, reason = ''OK'', url = ''https://auth.example/oauth2/token'',
         json_body = Inr (PDict [(''access_token'', PStr ''tok''), (''expires_in'', PInt 60)])\<rparr>,
      time_at_test = 1000, time_after_fetch = 1001\<rparr>
     \<lparr>access_token_cache = PNone, token_expiry = None\<rparr>
   = ([Call ''requests.post''], PStr ''tok'',
      \<lparr>access_token_cache = PStr ''tok'', token_expiry = Some 4001\<rparr>)
   \<and> get_gateway_access_token
     \<lparr>GATEWAY_TOKEN_URL = None,
      GATEWAY_COGNITO_CLIENT_ID = None, GATEWAY_COGNITO_CLIENT_SECRET = None,
      requests_post = Inl ''unreachable'', time_at_test = 4000, time_after_fetch = 4000\<rparr>
     \<lparr>access_token_cache = PStr ''tok'', token_expiry = Some 4001\<rparr>
   = ([], PStr ''tok'', \<lparr>access_token_cache = PStr ''tok'', token_expiry = Some 4001\<rparr>)
   \<and> snd (get_gateway_access_token
     \<lparr>GATEWAY_TOKEN_URL = Some ''https://auth.example/oauth2/token'',
      GATEWAY_COGNITO_CLIENT_ID = Some ''client'', GATEWAY_COGNITO_CLIENT_SECRET = Some ''secret'',
      requests_post = Inr \<lparr>status_code = 503, reason = ''Service Unavailable'',
         url = ''https://auth.example/oauth2/token'', json_body = Inl ''JSONDecodeError''\<rparr>,
      time_at_test = 4001, time_after_fetch = 4002\<rparr>
     \<lparr>access_token_cache = PStr ''tok'', token_expiry = Some 4001\<rparr>)
   = (PNone, \<lparr>access_token_cache = PStr ''tok'', token_expiry = Some 4001\<rparr>)"
proof -
  let ?e1 = "\<lparr>GATEWAY_TOKEN_URL = Some ''https://auth.example/oauth2/token'',
      GATEWAY_COGNITO_CLIENT_ID = Some ''client'', GATEWAY_COGNITO_CLIENT_SECRET = Some ''secret'',
      requests_post = Inr \<lparr>status_code = 200, reason = ''OK'', url = ''https://auth.example/oauth2/token'',
         json_body = Inr (PDict [(''access_token'', PStr ''tok''), (''expires_in'', PInt 60)])\<rparr>,
      time_at_test = 1000, time_after_fetch = 1001\<rparr>"
  let ?e2 = "\<lparr>GATEWAY_TOKEN_URL = None,
      GATEWAY_COGNITO_CLIENT_ID = None, GATEWAY_COGNITO_CLIENT_SECRET = None,
      requests_post = Inl ''unreachable'', time_at_test = 4000, time_after_fetch = 4000\<rparr>"
  let ?e3 = "\<lparr>GATEWAY_TOKEN_URL = Some ''https://auth.example/oauth2/token'',
      GATEWAY_COGNITO_CLIENT_ID = Some ''client'', GATEWAY_COGNITO_CLIENT_SECRET = Some ''secret'',
      requests_post = Inr \<lparr>status_code = 503, reason = ''Service Unavailable'',
         url = ''https://auth.example/oauth2/token'', json_body = Inl ''JSONDecodeError''\<rparr>,
      time_at_test = 4001, time_after_fetch = 4002\<rparr>"
  let ?s0 = "\<lparr>access_token_cache = PNone, token_expiry = None\<rparr>"
  let ?s1 = "\<lparr>access_token_cache = PStr ''tok'', token_expiry = Some 4001\<rparr>"
  let ?r = "\<lparr>status_code = 200, reason = ''OK'', url = ''https://auth.example/oauth2/token'',
         json_body = Inr (PDict [(''access_token'', PStr ''tok''), (''expires_in'', PInt 60)])\<rparr>"
  have h1: "\<not> cache_valid ?e1 ?s0 \<and> configured ?e1 \<and> requests_post ?e1 = Inr ?r
          \<and> \<not> (400 \<le> status_code ?r \<and> status_code ?r < 600)
          \<and> json_body ?r = Inr (PDict [(''access_token'', PStr ''tok''), (''expires_in'', PInt 60)])
          \<and> py_getitem (PDict [(''access_token'', PStr ''tok''), (''expires_in'', PInt 60)])
                ''access_token'' = Inr (PStr ''tok'')"
    by (simp add: cache_valid_def configured_def env_set_def)
  have h2: "truthy (access_token_cache ?s1) \<and> token_expiry ?s1 = Some (1001 + 50 * 60)
          \<and> (0::real) \<le> 1001 \<and> time_at_test ?e2 - 1001 < 50 * 60"
    by simp
  have h3: "\<not> cache_valid ?e3 ?s1
        \<and> (\<not> configured ?e3 \<or> http_error ?e3 \<or> malformed_response ?e3)"
    by (simp add: cache_valid_def http_error_def)
  note t1 = get_gateway_access_token_cache [of ?s0 ?e1, THEN conjunct2, THEN conjunct1,
      rule_format, OF h1]
  note t2 = get_gateway_access_token_cache [of ?s1 ?e2, THEN conjunct1, rule_format, OF h2,
      THEN conjunct1]
  note t3 = get_gateway_access_token_cache [of ?s1 ?e3, THEN conjunct2, THEN conjunct2,
      THEN mp, OF h3]
  from t1 have a: "get_gateway_access_token ?e1 ?s0 = ([Call ''requests.post''], PStr ''tok'', ?s1)"
    by simp
  from t2 have b: "get_gateway_access_token ?e2 ?s1 = ([], PStr ''tok'', ?s1)"
    by simp
  from t3 have c: "snd (get_gateway_access_token ?e3 ?s1) = (PNone, ?s1)"
    by (simp add: prod_eq_iff)
  from a b c show ?thesis by blast
qed

subsection \<open>Streaming entrypoints\<close>

text \<open>
  C9. For every payload that is falsy or not a dictionary, and for every dictionary whose
  \<open>prompt\<close> entry is missing or falsy, each of the two streaming entrypoints yields exactly
  one event, an error event, and ends without building a session manager or an Agent and
  without opening the agent stream: the list of calls is empty.
\<close>

theorem entrypoints_reject_invalid_payload:
  "(\<not> truthy payload \<or> \<not> is_dict payload \<longrightarrow>
      spa_multi_agent_system env payload
        = ([PDict [(''error'', PStr ''Invalid request format'')]], [])
      \<and> spa_multi_agent_system_streaming env payload
        = ([PDict [(''type'', PStr ''error''),
                   (''data'', PStr ''Error: Invalid request format.'')]], []))
   \<and> (truthy payload \<and> is_dict payload \<and> \<not> truthy (py_get payload ''prompt'') \<longrightarrow>
      spa_multi_agent_system env payload
        = ([PDict [(''error'', PStr ''No prompt provided in request'')]], [])
      \<and> spa_multi_agent_system_streaming env payload
        = ([PDict [(''type'', PStr ''error''),
                   (''data'', PStr ''Error: No prompt provided in request.'')]], []))"
  by (simp add: spa_multi_agent_system_def spa_multi_agent_system_streaming_def Let_def)

theorem entrypoints_reject_invalid_payload_witness:
  "spa_multi_agent_system
     \<lparr>memory_id = Some ''mem-1'', memory_config_raises = None,
      session_manager_raises = None, agent_raises = None,
      stream_async = (\<lambda>p. ([[(''data'', PStr ''hello'')]], None))\<rparr>
     (PList [PStr ''prompt''])
     = ([PDict [(''error'', PStr ''Invalid request format'')]], [])
   \<and> spa_multi_agent_system_streaming
     \<lparr>memory_id = Some ''mem-1'', memory_config_raises = None,
      session_manager_raises = None, agent_raises = None,
      stream_async = (\<lambda>p. ([[(''data'', PStr ''hello'')]], None))\<rparr>
     (PDict [(''user_id'', PStr ''u1''), (''prompt'', PStr '''')])
     = ([PDict [(''type'', PStr ''error''),
                (''data'', PStr ''Error: No prompt provided in request.'')]], [])"
proof -
  let ?env = "\<lparr>memory_id = Some ''mem-1'', memory_config_raises = None,
      session_manager_raises = None, agent_raises = None,
      stream_async = (\<lambda>p. ([[(''data'', PStr ''hello'')]], None))\<rparr>"
  have h1: "\<not> truthy (PList [PStr ''prompt'']) \<or> \<not> is_dict (PList [PStr ''prompt''])"
    by simp
  have h2: "truthy (PDict [(''user_id'', PStr ''u1''), (''prompt'', PStr '''')])
            \<and> is_dict (PDict [(''user_id'', PStr ''u1''), (''prompt'', PStr '''')])
            \<and> \<not> truthy (py_get (PDict [(''user_id'', PStr ''u1''), (''prompt'', PStr '''')])
                             ''prompt'')"
    by simp
  from entrypoints_reject_invalid_payload [of "PList [PStr ''prompt'']" ?env,
      THEN conjunct1, THEN mp, OF h1, THEN conjunct1]
    entrypoints_reject_invalid_payload
      [of "PDict [(''user_id'', PStr ''u1''), (''prompt'', PStr '''')]" ?env,
      THEN conjunct2, THEN mp, OF h2, THEN conjunct2]
  show ?thesis by blast
qed

text \<open>A payload with a prompt does reach the Agent: the model's accepting path, on a
  stream of one text chunk.\<close>

lemma entrypoints_accept_prompt:
  "spa_multi_agent_system_streaming
     \<lparr>memory_id = Some ''mem-1'', memory_config_raises = None,
      session_manager_raises = None, agent_raises = None,
      stream_async = (\<lambda>p. ([[(''data'', PStr ''hello'')]], None))\<rparr>
     (PDict [(''prompt'', PStr ''list vendors'')])
   = ([PDict [(''type'', PStr ''chunk''), (''data'', PStr ''hello'')],
       PDict [(''type'', PStr ''complete''), (''data'', PStr ''hello'')]],
      [Call ''AgentCoreMemoryConfig'', Call ''AgentCoreMemorySessionManager'', Call ''Agent'',
       Call ''stream_async''])"
  by (simp add: spa_multi_agent_system_streaming_def setup_agent_def env_set_def)

subsection \<open>Agent tools\<close>

text \<open>No tool lets an exception through: whatever the AWS calls do, the result is a
  string.\<close>

lemma tools_return_strings:
  "\<exists>s. lookup_schema env question = Inr s"
  "\<exists>s. query_athena env query = Inr s"
  "\<exists>s. get_financial_performance env material = Inr s"
  "\<exists>s. get_supplier_quality_metrics env material = Inr s"
  "\<exists>s. check_vendor_compliance env vendor_numbers = Inr s"
  by (simp_all add: lookup_schema_def query_athena_def get_financial_performance_def
        get_supplier_quality_metrics_def check_vendor_compliance_def try_except_returns)

text \<open>In the three tools that call AWS themselves, the message of an exception of the
  call follows the tool's error prefix.\<close>

lemma lookup_schema_error:
  "bedrock_kb_retrieve env question = Inl e \<Longrightarrow>
   lookup_schema env question = Inr (''Error accessing schema information: '' @ e)"
  by (simp add: lookup_schema_def try_except_def)

lemma query_athena_error:
  "start_query_execution env query (ATHENA_DB env) = Inl e
   \<or> (\<exists>execution_id. start_query_execution env query (ATHENA_DB env) = Inr execution_id)
      \<and> snd (get_query_results (athena_client env)) = Inl e \<Longrightarrow>
   query_athena env query = Inr (''Error executing query: '' @ e)"
  by (auto simp: query_athena_def try_except_def)

lemma check_vendor_compliance_error:
  assumes "start_query_execution env (compliance_query [vendor]) (COMPLIANCE_DB env) = Inl e"
    and "vendor \<noteq> []" "\<forall>c \<in> set vendor. \<not> is_space c \<and> c \<noteq> CHR '',''"
    and "str_lower vendor \<notin> set [''context'', ''previous'', ''these'', ''those'',
             ''mentioned'', ''these vendors'', ''those suppliers'']"
    and "\<not> starts_with vendor ''[''"
  shows "check_vendor_compliance env vendor = Inr (''Error retrieving compliance data: '' @ e)"
proof -
  have sp: "split_char CHR '','' vendor = [vendor]"
    using assms(3) by (induction vendor) auto
  have "dropWhile is_space vendor = vendor"
    using assms(2,3) by (cases vendor) auto
  moreover have "dropWhile is_space (rev vendor) = rev vendor"
    using assms(2,3) by (cases "rev vendor") (auto simp: rev_is_Nil_conv dest: arg_cong [where f = set])
  ultimately have st: "str_strip vendor = vendor"
    by (simp add: str_strip_def)
  show ?thesis
    using assms(1,2,4,5) by (simp add: check_vendor_compliance_def try_except_def sp st Let_def)
qed

text \<open>
  C3. Every agent tool returns a string and never lets an exception reach its caller, and
  when an AWS call raised, the string describes the error. The first half holds
  (\<open>tools_return_strings\<close>), and so does the second for \<open>lookup_schema\<close>,
  \<open>query_athena\<close> and \<open>check_vendor_compliance\<close>. It fails in
  \<open>get_financial_performance\<close> (and, by the same test, in
  \<open>get_supplier_quality_metrics\<close>): when \<open>start_query_execution\<close> raises an exception
  whose message contains \<open>No results found\<close>, \<open>query_athena\<close> returns
  \<open>Error executing query: No results found\<close>, and the wrapper, finding
  \<open>No results found\<close> in it, answers that no data was found for the material.
\<close>

theorem get_financial_performance_masks_error:
  "query_athena
     \<lparr>athena_client = \<lparr>get_query_execution = (\<lambda>n. Inl ''unused''),
                        get_query_results_api = Inl ''unused''\<rparr>,
      start_query_execution = (\<lambda>query database. Inl ''No results found''),
      bedrock_kb_retrieve = (\<lambda>question. Inl ''unused''),
      ATHENA_DB = ''sapdatadb'', COMPLIANCE_DB = ''compdatadb''\<rparr>
     (financial_query ''M1'')
   = Inr ''Error executing query: No results found''
   \<and> get_financial_performance
     \<lparr>athena_client = \<lparr>get_query_execution = (\<lambda>n. Inl ''unused''),
                        get_query_results_api = Inl ''unused''\<rparr>,
      start_query_execution = (\<lambda>query database. Inl ''No results found''),
      bedrock_kb_retrieve = (\<lambda>question. Inl ''unused''),
      ATHENA_DB = ''sapdatadb'', COMPLIANCE_DB = ''compdatadb''\<rparr>
     ''M1''
   = Inr ''No financial performance data found for material M1.''
   \<and> get_supplier_quality_metrics
     \<lparr>athena_client = \<lparr>get_query_execution = (\<lambda>n. Inl ''unused''),
                        get_query_results_api = Inl ''unused''\<rparr>,
      start_query_execution = (\<lambda>query database. Inl ''No results found''),
      bedrock_kb_retrieve = (\<lambda>question. Inl ''unused''),
      ATHENA_DB = ''sapdatadb'', COMPLIANCE_DB = ''compdatadb''\<rparr>
     ''M1''
   = Inr ''No quality metrics found for material M1.''"
  by (simp add: get_financial_performance_def get_supplier_quality_metrics_def
        query_athena_def try_except_def starts_with_def)

subsection \<open>Properties of the matcher\<close>







subsection \<open>RFQ validation\<close>





text \<open>The \<open>except\<close> branch of \<open>validate_rfq_data\<close> returns a string as well: no
  exception leaves the tool.\<close>

lemma validate_rfq_data_returns_string: "\<exists>s. validate_rfq_data user_input = Inr s"
  by (simp add: validate_rfq_data_def try_except_returns Let_def)

text \<open>Two runs of the function, computed: a complete request, and one without a
  supplier id and with a date that is not in the \<open>YYYY-MM-DD\<close> form.\<close>

lemma validate_rfq_data_examples:
  "validate_rfq_data ''Material Number: MZ-RM-C900-06, Supplier ID: USSU-VSF01, quantity 10, delivery date 2025-10-03''
   = Inr (''RFQ data validated successfully: {'' @ [CHR 0x22] @ ''material_number'' @ [CHR 0x22]
          @ '': '' @ [CHR 0x22] @ ''MZ-RM-C900-06'' @ [CHR 0x22] @ '', '' @ [CHR 0x22]
          @ ''supplier_id'' @ [CHR 0x22] @ '': '' @ [CHR 0x22] @ ''USSU-VSF01'' @ [CHR 0x22]
          @ '', '' @ [CHR 0x22] @ ''quantity'' @ [CHR 0x22] @ '': '' @ [CHR 0x22] @ ''10''
          @ [CHR 0x22] @ '', '' @ [CHR 0x22] @ ''delivery_date'' @ [CHR 0x22] @ '': ''
          @ [CHR 0x22] @ ''2025-10-03'' @ [CHR 0x22] @ ''}'')"
  "validate_rfq_data ''material number MZ-1 quantity: 10 delivery date: 2025-10-3''
   = Inr ''Missing required information: Supplier Id, Delivery Date''"
  by code_simp+

subsection \<open>RFQ field extraction\<close>

lemma extract_field_first_pattern:
  "extract_field patterns full_text = first_pattern_last_match patterns full_text"
  by (induction patterns) (simp_all add: first_pattern_last_match_def Let_def)

lemma extract_field_None:
  "(extract_field patterns full_text = None)
     = list_all (\<lambda>p. re_findall p full_text = []) patterns"
  by (induction patterns) (simp_all add: Let_def)

text \<open>
  C1 as stated: each field equals the last regex match for that field in the combined
  text. On the input \<open>quantity: 5 then 20 units\<close> (empty context) the function returns
  \<open>5\<close> for the quantity, the match of the first pattern, while the last match of a
  quantity pattern in the text is \<open>20\<close> (fifth pattern). On \<open>rfq name: Q4 Order \<close>
  every match of a name pattern has the text \<open>Q4 Order \<close> with its final space, and the
  function returns \<open>Q4 Order\<close>.
\<close>

theorem extract_last_match_counterexample:
  "quantity (extract_rfq_data_from_context ''quantity: 5 then 20 units'' '''') = Some ''5''
   \<and> spec_last_match quantity_patterns (CHR 0x0A # ''quantity: 5 then 20 units'') = Some ''20''
   \<and> rfq_name (extract_rfq_data_from_context ''rfq name: Q4 Order '' '''') = Some ''Q4 Order''
   \<and> spec_last_match rfq_name_patterns (CHR 0x0A # ''rfq name: Q4 Order '') = Some ''Q4 Order ''"
proof -
  have q: "quantity (extract_rfq_data_from_context u c)
             = extract_field quantity_patterns (c @ [CHR 0x0A] @ u)" for u c
    by (simp add: extract_rfq_data_from_context_def Let_def)
  have n: "rfq_name (extract_rfq_data_from_context u c)
             = map_option str_strip (extract_field rfq_name_patterns (c @ [CHR 0x0A] @ u))" for u c
    by (simp add: extract_rfq_data_from_context_def Let_def)
  have a: "extract_field quantity_patterns (CHR 0x0A # ''quantity: 5 then 20 units'') = Some ''5''"
    by code_simp
  have b: "spec_last_match quantity_patterns (CHR 0x0A # ''quantity: 5 then 20 units'') = Some ''20''"
    by code_simp
  have c: "map_option str_strip (extract_field rfq_name_patterns (CHR 0x0A # ''rfq name: Q4 Order ''))
             = Some ''Q4 Order''"
    by code_simp
  have d: "spec_last_match rfq_name_patterns (CHR 0x0A # ''rfq name: Q4 Order '') = Some ''Q4 Order ''"
    by code_simp
  from a b c d show ?thesis by (simp add: q n)
qed

text \<open>
  C1, amended. For every user input and conversation context, each of the fields
  \<open>material_number\<close>, \<open>supplier_id\<close>, \<open>quantity\<close> and \<open>delivery_date\<close> is the last match
  of the first pattern, in the order of the field's pattern list, that matches the
  combined text (the context, a newline, the user input) at all; \<open>rfq_name\<close> is that
  match with the whitespace at both ends stripped; and a field is \<open>None\<close> exactly when no
  pattern of the field matches anywhere in the combined text.
\<close>

theorem extract_rfq_data_first_pattern:
  "material_number (extract_rfq_data_from_context user_input conversation_context)
     = first_pattern_last_match material_patterns (conversation_context @ [CHR 0x0A] @ user_input)
   \<and> supplier_id (extract_rfq_data_from_context user_input conversation_context)
     = first_pattern_last_match supplier_patterns (conversation_context @ [CHR 0x0A] @ user_input)
   \<and> quantity (extract_rfq_data_from_context user_input conversation_context)
     = first_pattern_last_match quantity_patterns (conversation_context @ [CHR 0x0A] @ user_input)
   \<and> delivery_date (extract_rfq_data_from_context user_input conversation_context)
     = first_pattern_last_match delivery_patterns (conversation_context @ [CHR 0x0A] @ user_input)
   \<and> rfq_name (extract_rfq_data_from_context user_input conversation_context)
     = map_option str_strip
         (first_pattern_last_match rfq_name_patterns (conversation_context @ [CHR 0x0A] @ user_input))
   \<and> (material_number (extract_rfq_data_from_context user_input conversation_context) = None)
     = list_all (\<lambda>p. re_findall p (conversation_context @ [CHR 0x0A] @ user_input) = [])
         material_patterns
   \<and> (supplier_id (extract_rfq_data_from_context user_input conversation_context) = None)
     = list_all (\<lambda>p. re_findall p (conversation_context @ [CHR 0x0A] @ user_input) = [])
         supplier_patterns
   \<and> (quantity (extract_rfq_data_from_context user_input conversation_context) = None)
     = list_all (\<lambda>p. re_findall p (conversation_context @ [CHR 0x0A] @ user_input) = [])
         quantity_patterns
   \<and> (delivery_date (extract_rfq_data_from_context user_input conversation_context) = None)
     = list_all (\<lambda>p. re_findall p (conversation_context @ [CHR 0x0A] @ user_input) = [])
         delivery_patterns
   \<and> (rfq_name (extract_rfq_data_from_context user_input conversation_context) = None)
     = list_all (\<lambda>p. re_findall p (conversation_context @ [CHR 0x0A] @ user_input) = [])
         rfq_name_patterns"
  by (simp add: extract_rfq_data_from_context_def Let_def extract_field_first_pattern [symmetric]
        extract_field_None)

end
